theory Spec2Isabelle
  imports Complex_Main "HOL-Library.Sublist" "HOL-Library.AList" "HOL-Library.Multiset"
begin

section \<open>Host values: numbers, strings, errors\<close>

text \<open>
  A JavaScript \<^verbatim>\<open>number\<close> is modelled as a \<^typ>\<open>real\<close> (finite, non-NaN values; the
  rounding of double arithmetic is outside the model). An optional value (\<^verbatim>\<open>x?: T\<close>,
  \<^verbatim>\<open>undefined\<close>) is an \<^typ>\<open>'a option\<close>. Every \<^verbatim>\<open>throw new Error(msg)\<close> of the source is
  the value \<open>Inl (Error msg)\<close> of a sum type.
\<close>

datatype error = Error string

text \<open>
  The functions of the JavaScript runtime that the code calls and that depend on the
  double representation are parameters of the model: \<open>num_str\<close> is the conversion of a
  number to a string (template interpolation, \<^verbatim>\<open>toString()\<close>, \<^verbatim>\<open>String(n)\<close>), and
  \<open>parse_float\<close> is \<^verbatim>\<open>parseFloat\<close>, with \<open>None\<close> for NaN.
\<close>

record runtime =
  num_str :: "real \<Rightarrow> string"
  parse_float :: "string \<Rightarrow> real option"

text \<open>Decimal digits of a natural number: what JavaScript prints for a small integer.\<close>

function nat_str :: "nat \<Rightarrow> string" where
  "nat_str n =
     (if n < 10 then [''0123456789'' ! n]
      else nat_str (n div 10) @ [''0123456789'' ! (n mod 10)])"
  by pat_completeness auto
termination
  by (relation "measure id") auto

declare nat_str.simps [simp del]

text \<open>
  A concrete runtime for evaluating the model at concrete inputs: exact on integer-valued
  numbers, which is all the examples below use.
\<close>

definition int_num_str :: "real \<Rightarrow> string" where
  "int_num_str r = (if r < 0 then ''-'' @ nat_str (nat \<lfloor>- r\<rfloor>) else nat_str (nat \<lfloor>r\<rfloor>))"

definition rt0 :: runtime where
  "rt0 = \<lparr>num_str = int_num_str, parse_float = (\<lambda>s. None)\<rparr>"

subsection \<open>String operations of the source\<close>

definition lower_char :: "char \<Rightarrow> char" where
  "lower_char c =
     (case map_of (zip ''ABCDEFGHIJKLMNOPQRSTUVWXYZ'' ''abcdefghijklmnopqrstuvwxyz'') c of
        Some d \<Rightarrow> d
      | None \<Rightarrow> c)"

definition toLowerCase :: "string \<Rightarrow> string" where
  "toLowerCase s = map lower_char s"

text \<open>\<^verbatim>\<open>s.lastIndexOf(c)\<close>: the last position of \<open>c\<close>, or \<open>-1\<close>.\<close>

definition lastIndexOf :: "string \<Rightarrow> char \<Rightarrow> int" where
  "lastIndexOf s c =
     (case filter (\<lambda>i. s ! i = c) (rev [0..<length s]) of
        [] \<Rightarrow> - 1
      | i # _ \<Rightarrow> int i)"

text \<open>\<^verbatim>\<open>s.substring(i)\<close>: a negative start counts as 0, a start past the end gives the empty string.\<close>

definition substring :: "string \<Rightarrow> int \<Rightarrow> string" where
  "substring s i = drop (nat (max 0 i)) s"

text \<open>\<^verbatim>\<open>s.split(c)\<close> for a one-character separator.\<close>

fun split_acc :: "char \<Rightarrow> string \<Rightarrow> string \<Rightarrow> string list" where
  "split_acc c acc [] = [rev acc]"
| "split_acc c acc (x # xs) =
     (if x = c then rev acc # split_acc c [] xs else split_acc c (x # acc) xs)"

definition split :: "string \<Rightarrow> char \<Rightarrow> string list" where
  "split s c = split_acc c [] s"

text \<open>\<^verbatim>\<open>xs.join(sep)\<close>.\<close>

fun join :: "string list \<Rightarrow> string \<Rightarrow> string" where
  "join [] sep = []"
| "join [x] sep = x"
| "join (x # y # ys) sep = x @ sep @ join (y # ys) sep"

text \<open>\<^verbatim>\<open>s.includes(t)\<close>: \<open>t\<close> occurs in \<open>s\<close> as a contiguous substring.\<close>

fun includes_str :: "string \<Rightarrow> string \<Rightarrow> bool" where
  "includes_str [] t = (t = [])"
| "includes_str (x # xs) t = (prefix t (x # xs) \<or> includes_str xs t)"

definition startsWith :: "string \<Rightarrow> string \<Rightarrow> bool" where
  "startsWith s t = prefix t s"

definition endsWith :: "string \<Rightarrow> string \<Rightarrow> bool" where
  "endsWith s t = suffix t s"

section \<open>Types (types.ts)\<close>

datatype Anchor =
    CENTER | TOP_LEFT | TOP_CENTER | TOP_RIGHT | CENTER_LEFT | CENTER_RIGHT
  | BOTTOM_LEFT | BOTTOM_CENTER | BOTTOM_RIGHT

datatype SizeMode = CONTAIN | COVER | PX | CANVAS_PERCENT | FIT_WIDTH | FIT_HEIGHT | SCALE

datatype TransparentFormat = Webm_vp9 | Mov_prores | Png_sequence | Pro_bundle | Stacked_video

section \<open>VideoSource (video-source.ts)\<close>

text \<open>
  The probed metadata. Only the fields that the modelled functions read are kept:
  the codec name, the duration (ffprobe reports a string, \<^verbatim>\<open>setVideoInfo\<close> may store a
  number) and the \<^verbatim>\<open>codec_type\<close> of every stream.
\<close>

datatype probed_duration = DurationString string | DurationNumber real

record VideoInfo =
  codec_name :: string
  duration :: "probed_duration option"
  streams :: "string option list option"

text \<open>
  \<^verbatim>\<open>VideoSource.getDuration\<close>: a missing, empty-string or zero duration is falsy and gives
  \<^verbatim>\<open>undefined\<close>; a string is parsed, and NaN gives \<^verbatim>\<open>undefined\<close>.
\<close>

definition getDuration :: "runtime \<Rightarrow> VideoInfo option \<Rightarrow> real option" where
  "getDuration rt vi =
     (case vi of
        None \<Rightarrow> None
      | Some info \<Rightarrow>
          (case duration info of
             None \<Rightarrow> None
           | Some (DurationString s) \<Rightarrow> (if s = [] then None else parse_float rt s)
           | Some (DurationNumber d) \<Rightarrow> (if d = 0 then None else Some d)))"

definition hasAudioStreams :: "VideoInfo option \<Rightarrow> bool" where
  "hasAudioStreams vi =
     (case vi of
        None \<Rightarrow> False
      | Some info \<Rightarrow>
          (case streams info of
             None \<Rightarrow> False
           | Some ss \<Rightarrow> list_ex (\<lambda>t. t = Some ''audio'') ss))"

text \<open>The media context: the ffmpeg binary and the outcome of \<^verbatim>\<open>checkWebmSupport()\<close>.\<close>

record MediaContext =
  ffmpeg :: string
  webmSupport :: bool

definition getDecoderArgs :: "MediaContext \<Rightarrow> VideoInfo option \<Rightarrow> string list" where
  "getDecoderArgs ctx vi =
     (case vi of
        None \<Rightarrow> []
      | Some info \<Rightarrow>
          (if codec_name info = ''vp9'' \<and> webmSupport ctx then [''-c:v'', ''libvpx-vp9''] else []))"

section \<open>Foreground (foreground.ts)\<close>

record Foreground =
  format :: TransparentFormat
  primaryPath :: string
  maskPath :: "string option"
  audioPath :: "string option"
  sourceTrim :: "(real \<times> real option) option"
  videoInfo :: "VideoInfo option"

text \<open>The constructor: the probed metadata of a new object is unset.\<close>

definition new_Foreground ::
  "TransparentFormat \<Rightarrow> string \<Rightarrow> string option \<Rightarrow> string option \<Rightarrow>
   (real \<times> real option) option \<Rightarrow> Foreground" where
  "new_Foreground f p m a t =
     \<lparr>format = f, primaryPath = p, maskPath = m, audioPath = a, sourceTrim = t,
      videoInfo = None\<rparr>"

text \<open>
  \<^verbatim>\<open>probeAndStore\<close> never throws (a failed probe stores the fallback info), so the
  outcome of probing a path is a function \<open>probe\<close> from paths to metadata. The factories
  below are the factories at a media context that exists (passed in, or the default one);
  \<^verbatim>\<open>Foreground.fromFile\<close> further down resolves the context itself.
\<close>

definition probeAndStore :: "(string \<Rightarrow> VideoInfo) \<Rightarrow> string \<Rightarrow> Foreground \<Rightarrow> Foreground" where
  "probeAndStore probe path fg = fg\<lparr>videoInfo := Some (probe path)\<rparr>"

definition fromWebmVp9 :: "(string \<Rightarrow> VideoInfo) \<Rightarrow> string \<Rightarrow> Foreground" where
  "fromWebmVp9 probe path = probeAndStore probe path (new_Foreground Webm_vp9 path None None None)"

definition fromMovProres :: "(string \<Rightarrow> VideoInfo) \<Rightarrow> string \<Rightarrow> Foreground" where
  "fromMovProres probe path =
     probeAndStore probe path (new_Foreground Mov_prores path None None None)"

definition fromPngSequence :: "string \<Rightarrow> Foreground" where
  "fromPngSequence path = new_Foreground Png_sequence path None None None"

definition fromVideoAndMask ::
  "(string \<Rightarrow> VideoInfo) \<Rightarrow> string \<Rightarrow> string \<Rightarrow> string option \<Rightarrow> Foreground" where
  "fromVideoAndMask probe videoPath maskP audioP =
     probeAndStore probe videoPath (new_Foreground Pro_bundle videoPath (Some maskP) audioP None)"

definition fromStackedVideo :: "(string \<Rightarrow> VideoInfo) \<Rightarrow> string \<Rightarrow> Foreground" where
  "fromStackedVideo probe path =
     probeAndStore probe path (new_Foreground Stacked_video path None None None)"

text \<open>\<^verbatim>\<open>subclip\<close>: a new object with the receiver's format and locators and the new trim.\<close>

definition subclip :: "Foreground \<Rightarrow> real \<Rightarrow> real option \<Rightarrow> Foreground" where
  "subclip this start end' =
     new_Foreground (format this) (primaryPath this) (maskPath this) (audioPath this)
       (Some (start, end'))"

text \<open>
  Objects live in a store and are named by references (indices of the store);
  \<^verbatim>\<open>a.subclip(start, end)\<close> allocates the new object and returns its reference.
\<close>

type_synonym fg_store = "Foreground list"

definition subclip_ref :: "fg_store \<Rightarrow> nat \<Rightarrow> real \<Rightarrow> real option \<Rightarrow> fg_store \<times> nat" where
  "subclip_ref st a start end' = (st @ [subclip (st ! a) start end'], length st)"

subsection \<open>Format detection by extension\<close>

text \<open>
  The file system of \<^verbatim>\<open>Importer._handleZipBundle\<close>, the URL parser and the default media
  context are the environment: \<open>url_pathname\<close> is \<^verbatim>\<open>new URL(s).pathname\<close> (\<open>None\<close> when
  the constructor throws); \<open>extract_zip\<close> creates the extraction directory under the
  temporary root and unpacks the archive into it (\<open>Inl\<close> the text of \<^verbatim>\<open>${error}\<close> when a
  step throws, \<open>Inr\<close> the directory otherwise); \<open>file_exists\<close> is \<^verbatim>\<open>fs.existsSync\<close> and
  \<open>path_join\<close> is \<^verbatim>\<open>path.join\<close>; \<open>default_context\<close> is the outcome of
  \<^verbatim>\<open>defaultContext()\<close>, which returns the context of the process or creates it, and the
  constructor of \<^verbatim>\<open>MediaContext\<close> throws when ffmpeg or ffprobe cannot be run.
\<close>

record environment =
  url_pathname :: "string \<Rightarrow> string option"
  extract_zip :: "string \<Rightarrow> string + string"
  file_exists :: "string \<Rightarrow> bool"
  path_join :: "string \<Rightarrow> string \<Rightarrow> string"
  probe_video :: "string \<Rightarrow> VideoInfo"
  default_context :: "error + MediaContext"

text \<open>\<^verbatim>\<open>${error}\<close> for an \<^verbatim>\<open>Error\<close> object.\<close>

definition error_text :: "error \<Rightarrow> string" where
  "error_text e = (case e of Error m \<Rightarrow> ''Error: '' @ m)"

text \<open>\<^verbatim>\<open>ctx || defaultContext()\<close>.\<close>

definition resolveContext :: "environment \<Rightarrow> MediaContext option \<Rightarrow> error + MediaContext" where
  "resolveContext env ctx = (case ctx of Some c \<Rightarrow> Inr c | None \<Rightarrow> default_context env)"

definition getFileExtension_fallback :: "string \<Rightarrow> string" where
  "getFileExtension_fallback path =
     (let pathLower = toLowerCase path in
      if CHR ''.'' \<in> set pathLower then ''.'' @ last (split pathLower CHR ''.'') else [])"

definition getFileExtension :: "environment \<Rightarrow> string \<Rightarrow> string" where
  "getFileExtension env path =
     (if startsWith path ''http://'' \<or> startsWith path ''https://'' then
        (case url_pathname env path of
           Some pathname \<Rightarrow> toLowerCase (substring pathname (lastIndexOf pathname CHR ''.''))
         | None \<Rightarrow> getFileExtension_fallback path)
      else toLowerCase (substring path (lastIndexOf path CHR ''.'')))"

text \<open>
  \<^verbatim>\<open>Importer._handleZipBundle\<close>: everything happens inside one \<^verbatim>\<open>try\<close>, and whatever is
  thrown there is thrown again as \<^verbatim>\<open>Failed to extract pro bundle ZIP: ${error}\<close>. The
  call of \<^verbatim>\<open>Foreground.fromVideoAndMask\<close> passes no context, so it asks for the default one.
\<close>

definition handleZipBundle :: "environment \<Rightarrow> string \<Rightarrow> error + Foreground" where
  "handleZipBundle env zipPath =
     (case extract_zip env zipPath of
        Inl cause \<Rightarrow> Inl (Error (''Failed to extract pro bundle ZIP: '' @ cause))
      | Inr extractDir \<Rightarrow>
          (let colorPath = path_join env extractDir ''color.mp4'';
               alphaPath = path_join env extractDir ''alpha.mp4'';
               audio = path_join env extractDir ''audio.m4a''
           in if \<not> file_exists env colorPath then
                Inl (Error (''Failed to extract pro bundle ZIP: '' @
                            error_text (Error ''color.mp4 not found in pro bundle'')))
              else if \<not> file_exists env alphaPath then
                Inl (Error (''Failed to extract pro bundle ZIP: '' @
                            error_text (Error ''alpha.mp4 not found in pro bundle'')))
              else
                (case default_context env of
                   Inl e \<Rightarrow> Inl (Error (''Failed to extract pro bundle ZIP: '' @ error_text e))
                 | Inr c \<Rightarrow>
                     if file_exists env audio then
                       Inr (fromVideoAndMask (probe_video env) colorPath alphaPath (Some audio))
                     else Inr (fromVideoAndMask (probe_video env) colorPath alphaPath None))))"

text \<open>\<^verbatim>\<open>fromProBundleZip\<close> creates the importer with \<^verbatim>\<open>defaultContext()\<close>, outside the \<^verbatim>\<open>try\<close>.\<close>

definition fromProBundleZip :: "environment \<Rightarrow> string \<Rightarrow> error + Foreground" where
  "fromProBundleZip env path =
     (case default_context env of
        Inl e \<Rightarrow> Inl e
      | Inr c \<Rightarrow> handleZipBundle env path)"

text \<open>The arrow of the error message, as its UTF-8 bytes.\<close>

definition arrow :: string where
  "arrow = [CHR 0xE2, CHR 0x86, CHR 0x92]"

definition unknownFormatMessage :: "string \<Rightarrow> string \<Rightarrow> string" where
  "unknownFormatMessage path extension =
     ''Unknown video format for file: '' @ path @ [CHR 0x0A] @
     ''Detected extension: '' @ (if extension = [] then ''none'' else extension) @ [CHR 0x0A] @
     ''Supported formats:'' @ [CHR 0x0A] @
     ''  - .webm '' @ arrow @ '' use Foreground.fromWebmVp9()'' @ [CHR 0x0A] @
     ''  - .mov  '' @ arrow @ '' use Foreground.fromMovProres()'' @ [CHR 0x0A] @
     ''  - .mp4  '' @ arrow @ '' use Foreground.fromStackedVideo()'' @ [CHR 0x0A] @
     ''  - .zip  '' @ arrow @ '' use Foreground.fromProBundleZip()'' @ [CHR 0x0A] @
     ''Or use specific format methods if you know the exact format.''"

text \<open>
  \<^verbatim>\<open>Foreground.fromFile(path, ctx?)\<close> resolves the context first, then decides by the
  extension.
\<close>

definition fromFile :: "environment \<Rightarrow> string \<Rightarrow> MediaContext option \<Rightarrow> error + Foreground" where
  "fromFile env path ctx =
     (case resolveContext env ctx of
        Inl e \<Rightarrow> Inl e
      | Inr context \<Rightarrow>
          (let extension = getFileExtension env path in
           if extension = ''.webm'' then Inr (fromWebmVp9 (probe_video env) path)
           else if extension = ''.mov'' then Inr (fromMovProres (probe_video env) path)
           else if extension = ''.zip'' then fromProBundleZip env path
           else if extension = ''.mp4'' then Inr (fromStackedVideo (probe_video env) path)
           else Inl (Error (unknownFormatMessage path extension))))"

section \<open>Backgrounds (backgrounds.ts)\<close>

record BaseBackground =
  width :: real
  height :: real
  fps :: real
  audioEnabled :: bool
  audioVolume :: real

text \<open>The base constructor clamps the volume to the interval from 0 to 1.\<close>

definition new_BaseBackground :: "real \<Rightarrow> real \<Rightarrow> real \<Rightarrow> bool \<Rightarrow> real \<Rightarrow> BaseBackground" where
  "new_BaseBackground w h f ae av =
     \<lparr>width = w, height = h, fps = f, audioEnabled = ae, audioVolume = max 0 (min 1 av)\<rparr>"

text \<open>
  The class hierarchy: each variant carries the base fields; the video variant also
  carries its source, its trim and the metadata of its private \<^verbatim>\<open>videoSource\<close>.
\<close>

datatype Background =
    ColorBackground BaseBackground string
  | ImageBackground BaseBackground string
  | VideoBackground BaseBackground string "(real \<times> real option) option" "VideoInfo option"
  | EmptyBackground BaseBackground

fun base :: "Background \<Rightarrow> BaseBackground" where
  "base (ColorBackground b c) = b"
| "base (ImageBackground b s) = b"
| "base (VideoBackground b s t vi) = b"
| "base (EmptyBackground b) = b"

definition new_ColorBackground ::
  "string \<Rightarrow> real \<Rightarrow> real \<Rightarrow> real \<Rightarrow> bool \<Rightarrow> real \<Rightarrow> Background" where
  "new_ColorBackground color w h f ae av = ColorBackground (new_BaseBackground w h f ae av) color"

text \<open>The video constructor starts with an unprobed \<^verbatim>\<open>videoSource\<close>; \<^verbatim>\<open>_setVideoInfo\<close> stores the metadata.\<close>

definition new_VideoBackground ::
  "string \<Rightarrow> real \<Rightarrow> real \<Rightarrow> real \<Rightarrow> bool \<Rightarrow> real \<Rightarrow> (real \<times> real option) option \<Rightarrow> Background" where
  "new_VideoBackground source w h f ae av trim =
     VideoBackground (new_BaseBackground w h f ae av) source trim None"

fun setVideoInfo_bg :: "Background \<Rightarrow> VideoInfo \<Rightarrow> Background" where
  "setVideoInfo_bg (VideoBackground b s t vi) info = VideoBackground b s t (Some info)"
| "setVideoInfo_bg bg info = bg"

fun controlsDuration :: "Background \<Rightarrow> bool" where
  "controlsDuration (ColorBackground b c) = False"
| "controlsDuration (ImageBackground b s) = False"
| "controlsDuration (VideoBackground b s t vi) = True"
| "controlsDuration (EmptyBackground b) = False"

text \<open>Only the video variant has a \<^verbatim>\<open>getDuration\<close> method (\<^verbatim>\<open>'getDuration' in bg\<close>).\<close>

fun bg_getDuration :: "runtime \<Rightarrow> Background \<Rightarrow> real option option" where
  "bg_getDuration rt (VideoBackground b s t vi) = Some (getDuration rt vi)"
| "bg_getDuration rt _ = None"

fun hasAudio :: "Background \<Rightarrow> bool" where
  "hasAudio (VideoBackground b s t vi) = hasAudioStreams vi"
| "hasAudio _ = False"

text \<open>The test \<^verbatim>\<open>/^#[0-9A-Fa-f]{6}$/\<close> of \<^verbatim>\<open>Background.fromColor\<close>.\<close>

definition is_hex_digit :: "char \<Rightarrow> bool" where
  "is_hex_digit c = (c \<in> set ''0123456789ABCDEFabcdef'')"

definition matches_hex_color :: "string \<Rightarrow> bool" where
  "matches_hex_color s =
     (case s of
        [] \<Rightarrow> False
      | c # ds \<Rightarrow> c = CHR ''#'' \<and> length ds = 6 \<and> list_all is_hex_digit ds)"

definition fromColor :: "string \<Rightarrow> real \<Rightarrow> real \<Rightarrow> real \<Rightarrow> error + Background" where
  "fromColor hexColor w h f =
     (if \<not> matches_hex_color hexColor then Inl (Error ''Color must be in hex format (#RRGGBB)'')
      else Inr (new_ColorBackground hexColor w h f False 1))"

section \<open>Encoder profiles (encoders.ts)\<close>

datatype EncoderKind =
  H264 | Vp9 | Transparent_webm | Prores_4444 | Png_sequence_encoder | Stacked_video_encoder

datatype Layout = Vertical | Horizontal

record EncoderProfile =
  kind :: EncoderKind
  crf :: "real option"
  preset :: "string option"
  layout :: "Layout option"
  encoder_fps :: "real option"

text \<open>\<^verbatim>\<open>x || d\<close> on an optional number and on an optional string: unset, 0 and the empty string are falsy.\<close>

definition num_or :: "real option \<Rightarrow> real \<Rightarrow> real" where
  "num_or x d = (case x of None \<Rightarrow> d | Some v \<Rightarrow> if v = 0 then d else v)"

definition str_or :: "string option \<Rightarrow> string \<Rightarrow> string" where
  "str_or x d = (case x of None \<Rightarrow> d | Some v \<Rightarrow> if v = [] then d else v)"

definition h264 :: EncoderProfile where
  "h264 = \<lparr>kind = H264, crf = Some 18, preset = Some ''medium'', layout = None, encoder_fps = None\<rparr>"

text \<open>
  \<^verbatim>\<open>EncoderProfile.args\<close>. The kind is a closed type, so the final \<^verbatim>\<open>throw\<close> of the source
  (unknown kind) has no input.
\<close>

definition args :: "runtime \<Rightarrow> EncoderProfile \<Rightarrow> string \<Rightarrow> string list" where
  "args rt this outPath =
     (case kind this of
        H264 \<Rightarrow>
          [''-c:v'', ''libx264'', ''-crf'', num_str rt (num_or (crf this) 18),
           ''-preset'', str_or (preset this) ''medium'', ''-pix_fmt'', ''yuv420p'']
      | Vp9 \<Rightarrow> [''-c:v'', ''libvpx-vp9'', ''-crf'', num_str rt (num_or (crf this) 32), ''-b:v'', ''0'']
      | Transparent_webm \<Rightarrow>
          [''-c:v'', ''libvpx-vp9'', ''-crf'', num_str rt (num_or (crf this) 28), ''-b:v'', ''0'',
           ''-pix_fmt'', ''yuva420p'', ''-auto-alt-ref'', ''0'']
      | Prores_4444 \<Rightarrow>
          [''-c:v'', ''prores_ks'', ''-profile:v'', ''4'', ''-pix_fmt'', ''yuva444p10le'']
      | Png_sequence_encoder \<Rightarrow>
          [''-c:v'', ''png'', ''-pix_fmt'', ''rgba''] @
          (case encoder_fps this of
             None \<Rightarrow> []
           | Some f \<Rightarrow> if f = 0 then [] else [''-r'', num_str rt f])
      | Stacked_video_encoder \<Rightarrow>
          [''-c:v'', ''libx264'', ''-crf'', num_str rt (num_or (crf this) 18),
           ''-preset'', str_or (preset this) ''medium'', ''-pix_fmt'', ''yuv420p''])
     @ [outPath]"

section \<open>Composition (composition.ts)\<close>

record LayerDict =
  name :: string
  fg :: Foreground
  anchor :: Anchor
  dx :: real
  dy :: real
  x_expr :: "string option"
  y_expr :: "string option"
  size_l :: "SizeMode \<times> real option \<times> real option \<times> real option \<times> real option"
  opacity :: real
  rotate_l :: real
  crop :: "(real \<times> real \<times> real \<times> real) option"
  comp_start :: "real option"
  comp_end :: "real option"
  comp_duration :: "real option"
  source_trim :: "(real \<times> real option) option"
  audio_enabled :: bool
  audio_volume :: real
  alpha_enabled :: bool
  z :: real

record Composition =
  background :: "Background option"
  layers :: "LayerDict list"
  canvasHint :: "(real \<times> real \<times> real) option"
  explicitDuration :: "real option"

definition new_Composition :: "Background option \<Rightarrow> Composition" where
  "new_Composition bg =
     \<lparr>background = bg, layers = [], canvasHint = None, explicitDuration = None\<rparr>"

definition setCanvas :: "Composition \<Rightarrow> real \<Rightarrow> real \<Rightarrow> real \<Rightarrow> Composition" where
  "setCanvas this w h f =
     (new_Composition (background this))
       \<lparr>canvasHint := Some (w, h, f), layers := [] @ layers this,
        explicitDuration := explicitDuration this\<rparr>"

definition setDuration :: "Composition \<Rightarrow> real \<Rightarrow> Composition" where
  "setDuration this seconds =
     (new_Composition (background this))
       \<lparr>explicitDuration := Some seconds, canvasHint := canvasHint this,
        layers := [] @ layers this\<rparr>"

text \<open>
  \<^verbatim>\<open>add\<close> pushes the new layer and returns the handle, which is the index of the layer.
  The name is \<^verbatim>\<open>name || `layer${n}`\<close>; nothing is checked.
\<close>

definition add :: "runtime \<Rightarrow> Composition \<Rightarrow> Foreground \<Rightarrow> string option \<Rightarrow> Composition \<times> nat" where
  "add rt this fg' name' =
     (let layerName = str_or name' (''layer'' @ num_str rt (real (length (layers this))));
          layer =
            \<lparr>name = layerName, fg = fg', anchor = CENTER, dx = 0, dy = 0,
             x_expr = None, y_expr = None,
             size_l = (CONTAIN, None, None, None, None),
             opacity = 1, rotate_l = 0, crop = None,
             comp_start = None, comp_end = None, comp_duration = None, source_trim = None,
             audio_enabled = True, audio_volume = 1, alpha_enabled = True,
             z = real (length (layers this))\<rparr>
      in (this\<lparr>layers := layers this @ [layer]\<rparr>, length (layers this @ [layer]) - 1))"

subsection \<open>The layer handle\<close>

text \<open>
  Every method of the handle reads \<^verbatim>\<open>comp._layers[idx]\<close> and, if the layer exists,
  assigns its fields in place. The model passes the composition through the method and
  returns it updated. (A copy made by \<^verbatim>\<open>setCanvas\<close> or \<^verbatim>\<open>setDuration\<close> shares the layer
  objects of the original; here a handle is applied to the composition that is built from.)
\<close>

definition with_layer :: "Composition \<Rightarrow> nat \<Rightarrow> (LayerDict \<Rightarrow> LayerDict) \<Rightarrow> Composition" where
  "with_layer cmp idx f =
     (if idx < length (layers cmp) then cmp\<lparr>layers := (layers cmp)[idx := f (layers cmp ! idx)]\<rparr>
      else cmp)"

definition h_at :: "Composition \<Rightarrow> nat \<Rightarrow> Anchor \<Rightarrow> real \<Rightarrow> real \<Rightarrow> Composition" where
  "h_at cmp idx a x y = with_layer cmp idx (\<lambda>l. l\<lparr>anchor := a, dx := x, dy := y\<rparr>)"

definition h_xy :: "Composition \<Rightarrow> nat \<Rightarrow> string \<Rightarrow> string \<Rightarrow> Composition" where
  "h_xy cmp idx xe ye = with_layer cmp idx (\<lambda>l. l\<lparr>x_expr := Some xe, y_expr := Some ye\<rparr>)"

definition h_size ::
  "Composition \<Rightarrow> nat \<Rightarrow> SizeMode \<Rightarrow> real option \<Rightarrow> real option \<Rightarrow> real option \<Rightarrow> real option \<Rightarrow>
   Composition" where
  "h_size cmp idx mode w h percent scale =
     with_layer cmp idx (\<lambda>l. l\<lparr>size_l := (mode, w, h, percent, scale)\<rparr>)"

definition h_opacity :: "Composition \<Rightarrow> nat \<Rightarrow> real \<Rightarrow> Composition" where
  "h_opacity cmp idx a = with_layer cmp idx (\<lambda>l. l\<lparr>opacity := max 0 (min 1 a)\<rparr>)"

definition h_rotate :: "Composition \<Rightarrow> nat \<Rightarrow> real \<Rightarrow> Composition" where
  "h_rotate cmp idx degrees = with_layer cmp idx (\<lambda>l. l\<lparr>rotate_l := degrees\<rparr>)"

definition h_crop :: "Composition \<Rightarrow> nat \<Rightarrow> real \<Rightarrow> real \<Rightarrow> real \<Rightarrow> real \<Rightarrow> Composition" where
  "h_crop cmp idx x y w h = with_layer cmp idx (\<lambda>l. l\<lparr>crop := Some (x, y, w, h)\<rparr>)"

definition h_start :: "Composition \<Rightarrow> nat \<Rightarrow> real \<Rightarrow> Composition" where
  "h_start cmp idx seconds = with_layer cmp idx (\<lambda>l. l\<lparr>comp_start := Some seconds\<rparr>)"

definition h_end :: "Composition \<Rightarrow> nat \<Rightarrow> real \<Rightarrow> Composition" where
  "h_end cmp idx seconds = with_layer cmp idx (\<lambda>l. l\<lparr>comp_end := Some seconds\<rparr>)"

definition h_duration :: "Composition \<Rightarrow> nat \<Rightarrow> real \<Rightarrow> Composition" where
  "h_duration cmp idx seconds = with_layer cmp idx (\<lambda>l. l\<lparr>comp_duration := Some seconds\<rparr>)"

definition h_subclip :: "Composition \<Rightarrow> nat \<Rightarrow> real \<Rightarrow> real option \<Rightarrow> Composition" where
  "h_subclip cmp idx s e = with_layer cmp idx (\<lambda>l. l\<lparr>source_trim := Some (s, e)\<rparr>)"

definition h_audio :: "Composition \<Rightarrow> nat \<Rightarrow> bool \<Rightarrow> real \<Rightarrow> Composition" where
  "h_audio cmp idx enabled volume' =
     with_layer cmp idx (\<lambda>l. l\<lparr>audio_enabled := enabled, audio_volume := max 0 (min 1 volume')\<rparr>)"

definition h_z :: "Composition \<Rightarrow> nat \<Rightarrow> real \<Rightarrow> Composition" where
  "h_z cmp idx index = with_layer cmp idx (\<lambda>l. l\<lparr>z := index\<rparr>)"

definition h_alpha :: "Composition \<Rightarrow> nat \<Rightarrow> bool \<Rightarrow> Composition" where
  "h_alpha cmp idx enabled = with_layer cmp idx (\<lambda>l. l\<lparr>alpha_enabled := enabled\<rparr>)"

subsection \<open>Canvas and duration\<close>

definition canvasErrorMessage :: string where
  "canvasErrorMessage =
     ''Cannot determine canvas size. Please provide a background '' @
     ''(Background.fromImage/fromVideo/fromColor) or set explicit canvas dimensions '' @
     ''using Composition.canvas() or .setCanvas().''"

definition getCanvasSize :: "Composition \<Rightarrow> error + (real \<times> real \<times> real)" where
  "getCanvasSize this =
     (case background this of
        Some bg \<Rightarrow>
          if width (base bg) \<noteq> 0 \<and> height (base bg) \<noteq> 0 \<and> fps (base bg) \<noteq> 0
          then Inr (width (base bg), height (base bg), fps (base bg))
          else (case canvasHint this of
                  Some hint \<Rightarrow> Inr hint
                | None \<Rightarrow> Inl (Error canvasErrorMessage))
      | None \<Rightarrow>
          (case canvasHint this of
             Some hint \<Rightarrow> Inr hint
           | None \<Rightarrow> Inl (Error canvasErrorMessage)))"

definition getForegroundDuration :: "runtime \<Rightarrow> Foreground \<Rightarrow> real option" where
  "getForegroundDuration rt fg' = getDuration rt (videoInfo fg')"

text \<open>The loop of \<^verbatim>\<open>_getLongestForegroundDuration\<close>, one layer at a time.\<close>

definition longest_step :: "runtime \<Rightarrow> LayerDict \<Rightarrow> real \<Rightarrow> real" where
  "longest_step rt layer maxDuration =
     (case getForegroundDuration rt (fg layer) of
        None \<Rightarrow> maxDuration
      | Some fgDuration \<Rightarrow>
          if fgDuration \<noteq> 0 \<and> fgDuration > maxDuration then fgDuration else maxDuration)"

definition getLongestForegroundDuration :: "runtime \<Rightarrow> Composition \<Rightarrow> real option" where
  "getLongestForegroundDuration rt this =
     (let maxDuration = fold (longest_step rt) (layers this) 0
      in if maxDuration > 0 then Some maxDuration else None)"

definition getCompositionDuration :: "runtime \<Rightarrow> Composition \<Rightarrow> real option" where
  "getCompositionDuration rt this =
     (case explicitDuration this of
        Some d \<Rightarrow> Some d
      | None \<Rightarrow>
          (case background this of
             None \<Rightarrow> getLongestForegroundDuration rt this
           | Some bg \<Rightarrow>
               if controlsDuration bg then
                 (case bg_getDuration rt bg of
                    Some (Some bgDuration) \<Rightarrow>
                      if bgDuration \<noteq> 0 \<and> bgDuration > 0 then Some bgDuration
                      else getLongestForegroundDuration rt this
                  | _ \<Rightarrow> getLongestForegroundDuration rt this)
               else getLongestForegroundDuration rt this))"

text \<open>
  The duration limit of \<^verbatim>\<open>_buildFFmpegArgv\<close>: \<^verbatim>\<open>if (compDuration)\<close> tests truthiness, so
  an unset and a zero duration both emit nothing.
\<close>

definition durationArgs :: "runtime \<Rightarrow> Composition \<Rightarrow> string list" where
  "durationArgs rt this =
     (case getCompositionDuration rt this of
        None \<Rightarrow> []
      | Some compDuration \<Rightarrow> if compDuration \<noteq> 0 then [''-t'', num_str rt compDuration] else [])"

section \<open>Inputs and normalisation filters of a Foreground\<close>

text \<open>
  The input map (\<^verbatim>\<open>Record<string, number>\<close>) is an association list; \<^verbatim>\<open>Object.assign\<close>
  updates it key by key. A key that is missing reads as \<^verbatim>\<open>undefined\<close>, which a template
  prints as the word.
\<close>

type_synonym inputMap = "(string \<times> nat) list"

definition assign :: "inputMap \<Rightarrow> inputMap \<Rightarrow> inputMap" where
  "assign m updates = fold (\<lambda>(k, v) m'. AList.update k v m') updates m"

definition lookup_str :: "runtime \<Rightarrow> inputMap \<Rightarrow> string \<Rightarrow> string" where
  "lookup_str rt m k = (case map_of m k of None \<Rightarrow> ''undefined'' | Some n \<Rightarrow> num_str rt (real n))"

definition idx_str :: "runtime \<Rightarrow> nat \<Rightarrow> string" where
  "idx_str rt i = num_str rt (real i)"

text \<open>\<^verbatim>\<open>layerLabel.split('_')[1]\<close>, printed in a template.\<close>

definition split_second :: "string \<Rightarrow> string" where
  "split_second s = (let ps = split s CHR ''_'' in if 1 < length ps then ps ! 1 else ''undefined'')"

definition getWebmInputs ::
  "runtime \<Rightarrow> Foreground \<Rightarrow> nat \<Rightarrow> nat \<Rightarrow> MediaContext \<Rightarrow> string list \<Rightarrow> string list \<Rightarrow>
   string list \<times> inputMap \<times> string option" where
  "getWebmInputs rt this inputIdx layerIdx ctx sourceTrimArgs compositionTimingArgs =
     (let args0 = compositionTimingArgs;
          args1 =
            (if webmSupport ctx
             then args0 @ [''-c:v'', ''libvpx-vp9''] @ sourceTrimArgs @ [''-i'', primaryPath this]
             else args0 @ sourceTrimArgs @ [''-i'', primaryPath this]);
          layerKey = ''layer_'' @ idx_str rt layerIdx
      in (args1, [(layerKey, inputIdx)], Some layerKey))"

definition getMovInputs ::
  "runtime \<Rightarrow> Foreground \<Rightarrow> nat \<Rightarrow> nat \<Rightarrow> MediaContext \<Rightarrow> string list \<Rightarrow> string list \<Rightarrow>
   string list \<times> inputMap \<times> string option" where
  "getMovInputs rt this inputIdx layerIdx ctx sourceTrimArgs compositionTimingArgs =
     (let args1 = compositionTimingArgs @ sourceTrimArgs @ [''-i'', primaryPath this];
          layerKey = ''layer_'' @ idx_str rt layerIdx
      in (args1, [(layerKey, inputIdx)], Some layerKey))"

definition getBundleInputs ::
  "runtime \<Rightarrow> environment \<Rightarrow> Foreground \<Rightarrow> nat \<Rightarrow> nat \<Rightarrow> MediaContext \<Rightarrow> string list \<Rightarrow>
   string list \<Rightarrow> error + (string list \<times> inputMap \<times> string option)" where
  "getBundleInputs rt env this inputIdx layerIdx ctx sourceTrimArgs compositionTimingArgs =
     (case maskPath this of
        None \<Rightarrow> Inl (Error ''maskPath is required for pro_bundle format'')
      | Some maskP \<Rightarrow>
          if maskP = [] then Inl (Error ''maskPath is required for pro_bundle format'')
          else
            (let rgbArgs =
                   (if primaryPath this \<noteq> [] \<and> getFileExtension env (primaryPath this) = ''.webm''
                       \<and> webmSupport ctx
                    then compositionTimingArgs @ [''-c:v'', ''libvpx-vp9''] @ sourceTrimArgs @
                         [''-i'', primaryPath this]
                    else compositionTimingArgs @ sourceTrimArgs @ [''-i'', primaryPath this]);
                 maskArgs = compositionTimingArgs @ sourceTrimArgs @ [''-i'', maskP];
                 args0 = rgbArgs @ maskArgs;
                 updates0 =
                   [(''layer_'' @ idx_str rt layerIdx @ ''_rgb'', inputIdx),
                    (''layer_'' @ idx_str rt layerIdx @ ''_mask'', inputIdx + 1)]
             in (case audioPath this of
                   Some audioP \<Rightarrow>
                     if audioP \<noteq> [] then
                       (let audioKey = ''layer_'' @ idx_str rt layerIdx @ ''_audio''
                        in Inr (args0 @ compositionTimingArgs @ sourceTrimArgs @ [''-i'', audioP],
                                assign updates0 [(audioKey, inputIdx + 2)], Some audioKey))
                     else Inr (args0, updates0, Some (''layer_'' @ idx_str rt layerIdx @ ''_rgb''))
                 | None \<Rightarrow> Inr (args0, updates0, Some (''layer_'' @ idx_str rt layerIdx @ ''_rgb'')))))"

definition getStackedInputs ::
  "runtime \<Rightarrow> Foreground \<Rightarrow> nat \<Rightarrow> nat \<Rightarrow> MediaContext \<Rightarrow> string list \<Rightarrow> string list \<Rightarrow>
   string list \<times> inputMap \<times> string option" where
  "getStackedInputs rt this inputIdx layerIdx ctx sourceTrimArgs compositionTimingArgs =
     (let args1 = compositionTimingArgs @ sourceTrimArgs @ [''-i'', primaryPath this];
          layerKey = ''layer_'' @ idx_str rt layerIdx @ ''_stacked''
      in (args1, [(layerKey, inputIdx)], Some layerKey))"

definition getFFmpegInputs ::
  "runtime \<Rightarrow> environment \<Rightarrow> Foreground \<Rightarrow> nat \<Rightarrow> nat \<Rightarrow> MediaContext \<Rightarrow> string list \<Rightarrow>
   string list \<Rightarrow> error + (string list \<times> inputMap \<times> string option)" where
  "getFFmpegInputs rt env this inputIdx layerIdx ctx sourceTrimArgs compositionTimingArgs =
     (case format this of
        Webm_vp9 \<Rightarrow>
          Inr (getWebmInputs rt this inputIdx layerIdx ctx sourceTrimArgs compositionTimingArgs)
      | Mov_prores \<Rightarrow>
          Inr (getMovInputs rt this inputIdx layerIdx ctx sourceTrimArgs compositionTimingArgs)
      | Pro_bundle \<Rightarrow>
          getBundleInputs rt env this inputIdx layerIdx ctx sourceTrimArgs compositionTimingArgs
      | Stacked_video \<Rightarrow>
          Inr (getStackedInputs rt this inputIdx layerIdx ctx sourceTrimArgs compositionTimingArgs)
      | Png_sequence \<Rightarrow> Inl (Error ''Unknown foreground format: png_sequence''))"

definition getWebmFilters :: "runtime \<Rightarrow> string \<Rightarrow> inputMap \<Rightarrow> bool \<Rightarrow> string list" where
  "getWebmFilters rt layerLabel inputMap' alphaEnabled =
     (if \<not> alphaEnabled then
        (let inputKey = ''layer_'' @ split_second layerLabel
         in [''['' @ lookup_str rt inputMap' inputKey @ '':v]format=rgb24['' @ layerLabel @ ''_merged]''])
      else [])"

definition getMovFilters :: "runtime \<Rightarrow> string \<Rightarrow> inputMap \<Rightarrow> bool \<Rightarrow> string list" where
  "getMovFilters rt layerLabel inputMap' alphaEnabled =
     (if \<not> alphaEnabled then
        (let inputKey = ''layer_'' @ split_second layerLabel
         in [''['' @ lookup_str rt inputMap' inputKey @ '':v]format=rgb24['' @ layerLabel @ ''_merged]''])
      else [])"

definition getBundleFilters :: "runtime \<Rightarrow> string \<Rightarrow> inputMap \<Rightarrow> bool \<Rightarrow> string list" where
  "getBundleFilters rt layerLabel inputMap' alphaEnabled =
     (let rgbInput = ''['' @ lookup_str rt inputMap' (layerLabel @ ''_rgb'') @ '':v]''
      in if alphaEnabled then
           (let maskInput = ''['' @ lookup_str rt inputMap' (layerLabel @ ''_mask'') @ '':v]''
            in [rgbInput @ ''format=rgba['' @ layerLabel @ ''_rgba]'',
                maskInput @ ''format=gray['' @ layerLabel @ ''_mask_gray]'',
                ''['' @ layerLabel @ ''_mask_gray]geq='' @ [CHR 0x27] @ ''if(gte(lum(X,Y),128),255,0)'' @
                  [CHR 0x27] @ ''['' @ layerLabel @ ''_binary_mask]'',
                ''['' @ layerLabel @ ''_rgba]['' @ layerLabel @ ''_binary_mask]alphamerge['' @
                  layerLabel @ ''_merged]''])
         else [rgbInput @ ''format=rgb24['' @ layerLabel @ ''_merged]''])"

definition getStackedFilters :: "runtime \<Rightarrow> string \<Rightarrow> inputMap \<Rightarrow> bool \<Rightarrow> string list" where
  "getStackedFilters rt layerLabel inputMap' alphaEnabled =
     (let stackedInput = ''['' @ lookup_str rt inputMap' (layerLabel @ ''_stacked'') @ '':v]'';
          filters0 = [stackedInput @ ''crop=iw:ih/2:0:0['' @ layerLabel @ ''_top]'']
      in if alphaEnabled then
           filters0 @
           [''['' @ layerLabel @ ''_top]format=rgba['' @ layerLabel @ ''_top_rgba]'',
            stackedInput @ ''crop=iw:ih/2:0:ih/2['' @ layerLabel @ ''_bottom]'',
            ''['' @ layerLabel @ ''_bottom]format=gray['' @ layerLabel @ ''_mask_gray]'',
            ''['' @ layerLabel @ ''_mask_gray]geq='' @ [CHR 0x27] @ ''if(gte(lum(X,Y),128),255,0)'' @
              [CHR 0x27] @ ''['' @ layerLabel @ ''_binary_mask]'',
            ''['' @ layerLabel @ ''_top_rgba]['' @ layerLabel @ ''_binary_mask]alphamerge['' @
              layerLabel @ ''_merged]'']
         else filters0 @ [''['' @ layerLabel @ ''_top]format=rgb24['' @ layerLabel @ ''_merged]''])"

definition getFFmpegFilters ::
  "runtime \<Rightarrow> Foreground \<Rightarrow> string \<Rightarrow> inputMap \<Rightarrow> bool \<Rightarrow> error + string list" where
  "getFFmpegFilters rt this layerLabel inputMap' alphaEnabled =
     (case format this of
        Webm_vp9 \<Rightarrow> Inr (getWebmFilters rt layerLabel inputMap' alphaEnabled)
      | Mov_prores \<Rightarrow> Inr (getMovFilters rt layerLabel inputMap' alphaEnabled)
      | Pro_bundle \<Rightarrow> Inr (getBundleFilters rt layerLabel inputMap' alphaEnabled)
      | Stacked_video \<Rightarrow> Inr (getStackedFilters rt layerLabel inputMap' alphaEnabled)
      | Png_sequence \<Rightarrow> Inl (Error ''Unknown foreground format: png_sequence''))"

definition getCurrentInputLabel :: "Foreground \<Rightarrow> string \<Rightarrow> bool \<Rightarrow> error + string" where
  "getCurrentInputLabel this layerLabel alphaEnabled =
     (case format this of
        Webm_vp9 \<Rightarrow>
          if alphaEnabled then Inr (''[layer_'' @ split_second layerLabel @ '':v]'')
          else Inr (''['' @ layerLabel @ ''_merged]'')
      | Mov_prores \<Rightarrow>
          if alphaEnabled then Inr (''[layer_'' @ split_second layerLabel @ '':v]'')
          else Inr (''['' @ layerLabel @ ''_merged]'')
      | Pro_bundle \<Rightarrow> Inr (''['' @ layerLabel @ ''_merged]'')
      | Stacked_video \<Rightarrow> Inr (''['' @ layerLabel @ ''_merged]'')
      | Png_sequence \<Rightarrow> Inl (Error ''Unknown foreground format: png_sequence''))"

section \<open>Layer transformations and overlay position\<close>

definition getAspectRatioConstraint :: "SizeMode \<Rightarrow> string option" where
  "getAspectRatioConstraint sizeMode =
     (if sizeMode \<in> set [CANVAS_PERCENT, PX, CONTAIN, FIT_WIDTH, FIT_HEIGHT] then Some ''decrease''
      else if sizeMode = COVER then Some ''increase''
      else if sizeMode = SCALE then None
      else None)"

definition floor_num :: "real \<Rightarrow> real" where
  "floor_num x = real_of_int \<lfloor>x\<rfloor>"

definition calculateTargetDimensions ::
  "SizeMode \<times> real option \<times> real option \<times> real option \<times> real option \<Rightarrow> real \<Rightarrow> real \<Rightarrow> real \<times> real" where
  "calculateTargetDimensions sizeParams canvasWidth canvasHeight =
     (case sizeParams of (sizeMode, w, h, percent, scale) \<Rightarrow>
        if sizeMode \<noteq> CANVAS_PERCENT then (canvasWidth, canvasHeight)
        else
          (case (w, h) of
             (Some w', Some h') \<Rightarrow>
               (floor_num (canvasWidth * w' / 100), floor_num (canvasHeight * h' / 100))
           | (Some w', None) \<Rightarrow>
               (floor_num (canvasWidth * w' / 100),
                floor_num (canvasHeight * num_or percent 100 / 100))
           | (None, Some h') \<Rightarrow>
               (floor_num (canvasWidth * num_or percent 100 / 100),
                floor_num (canvasHeight * h' / 100))
           | (None, None) \<Rightarrow>
               (case percent of
                  Some p \<Rightarrow> (floor_num (canvasWidth * p / 100), floor_num (canvasHeight * p / 100))
                | None \<Rightarrow> (canvasWidth, canvasHeight))))"

text \<open>
  The size step of \<^verbatim>\<open>_getLayerTransformationFilters\<close>: the target width and height as
  they are printed, or \<open>None\<close> when \<^verbatim>\<open>scaleApplied\<close> stays false (pixel mode without a
  non-zero width and height).
\<close>

definition scaleTarget ::
  "runtime \<Rightarrow> LayerDict \<Rightarrow> real \<Rightarrow> real \<Rightarrow> (string \<times> string) option" where
  "scaleTarget rt layer canvasWidth canvasHeight =
     (case size_l layer of (sizeMode, w, h, percent, scale) \<Rightarrow>
        if sizeMode = PX \<and> w \<noteq> None \<and> w \<noteq> Some 0 \<and> h \<noteq> None \<and> h \<noteq> Some 0 then
          Some (num_str rt (the w), num_str rt (the h))
        else if sizeMode = CANVAS_PERCENT then
          (case calculateTargetDimensions (size_l layer) canvasWidth canvasHeight of
             (tw, th) \<Rightarrow> Some (num_str rt tw, num_str rt th))
        else if sizeMode = CONTAIN \<or> sizeMode = COVER then
          Some (num_str rt canvasWidth, num_str rt canvasHeight)
        else if sizeMode = FIT_WIDTH then Some (num_str rt canvasWidth, num_str rt (- 1))
        else if sizeMode = FIT_HEIGHT then Some (num_str rt (- 1), num_str rt canvasHeight)
        else if sizeMode = SCALE then
          (case (w, h, scale) of
             (Some w', Some h', _) \<Rightarrow> Some (''iw*'' @ num_str rt w', ''ih*'' @ num_str rt h')
           | (_, _, Some s') \<Rightarrow> Some (''iw*'' @ num_str rt s', ''ih*'' @ num_str rt s')
           | (Some w', None, None) \<Rightarrow> Some (''iw*'' @ num_str rt w', ''ih*'' @ num_str rt w')
           | (None, Some h', None) \<Rightarrow> Some (''iw*'' @ num_str rt h', ''ih*'' @ num_str rt h')
           | (None, None, None) \<Rightarrow> Some (''iw'', ''ih''))
        else None)"

text \<open>
  \<^verbatim>\<open>_getLayerTransformationFilters\<close>: the source threads the list \<^verbatim>\<open>filters\<close> and the
  label \<^verbatim>\<open>currentOutput\<close> through five conditional steps; each step is a function on that
  pair.
\<close>

type_synonym chain_state = "string list \<times> string"

definition step_timed :: "runtime \<Rightarrow> LayerDict \<Rightarrow> string \<Rightarrow> chain_state \<Rightarrow> chain_state" where
  "step_timed rt layer layerLabel st =
     (case st of (filters, currentOutput) \<Rightarrow>
        (case comp_start layer of
           None \<Rightarrow> st
         | Some compStart \<Rightarrow>
             if compStart \<noteq> 0 \<and> compStart > 0 then
               (let nextLabel = ''['' @ layerLabel @ ''_timed]''
                in (filters @
                    [currentOutput @ ''setpts=PTS-STARTPTS,setpts=PTS+'' @ num_str rt compStart @
                     ''/TB'' @ nextLabel], nextLabel))
             else st))"

definition step_crop :: "runtime \<Rightarrow> LayerDict \<Rightarrow> string \<Rightarrow> chain_state \<Rightarrow> chain_state" where
  "step_crop rt layer layerLabel st =
     (case st of (filters, currentOutput) \<Rightarrow>
        (case crop layer of
           None \<Rightarrow> st
         | Some (x, y, w, h) \<Rightarrow>
             (let nextLabel = ''['' @ layerLabel @ ''_crop]''
              in (filters @
                  [currentOutput @ ''crop='' @ num_str rt w @ '':'' @ num_str rt h @ '':'' @
                   num_str rt x @ '':'' @ num_str rt y @ nextLabel], nextLabel))))"

definition step_scale ::
  "runtime \<Rightarrow> LayerDict \<Rightarrow> string \<Rightarrow> real \<Rightarrow> real \<Rightarrow> chain_state \<Rightarrow> chain_state" where
  "step_scale rt layer layerLabel canvasWidth canvasHeight st =
     (case st of (filters, currentOutput) \<Rightarrow>
        (let aspectConstraint = getAspectRatioConstraint (fst (size_l layer))
         in (case scaleTarget rt layer canvasWidth canvasHeight of
               None \<Rightarrow> st
             | Some (targetW, targetH) \<Rightarrow>
                 (let nextLabel = ''['' @ layerLabel @ ''_scale]'';
                      scaleParams0 = targetW @ '':'' @ targetH;
                      scaleParams =
                        (case aspectConstraint of
                           None \<Rightarrow> scaleParams0
                         | Some c \<Rightarrow> scaleParams0 @ '':force_original_aspect_ratio='' @ c)
                  in (filters @ [currentOutput @ ''scale='' @ scaleParams @ nextLabel], nextLabel)))))"

definition step_rotate :: "runtime \<Rightarrow> LayerDict \<Rightarrow> string \<Rightarrow> chain_state \<Rightarrow> chain_state" where
  "step_rotate rt layer layerLabel st =
     (case st of (filters, currentOutput) \<Rightarrow>
        if rotate_l layer \<noteq> 0 then
          (let nextLabel = ''['' @ layerLabel @ ''_rotate]''
           in (filters @
               [currentOutput @ ''rotate='' @ num_str rt (rotate_l layer) @ ''*PI/180'' @ nextLabel],
               nextLabel))
        else st)"

definition step_opacity :: "runtime \<Rightarrow> LayerDict \<Rightarrow> string \<Rightarrow> chain_state \<Rightarrow> chain_state" where
  "step_opacity rt layer layerLabel st =
     (case st of (filters, currentOutput) \<Rightarrow>
        if opacity layer \<noteq> 1 then
          (let nextLabel = ''['' @ layerLabel @ ''_opacity]''
           in (filters @
               [currentOutput @ ''colorchannelmixer=aa='' @ num_str rt (opacity layer) @ nextLabel],
               nextLabel))
        else st)"

definition step_final :: "runtime \<Rightarrow> nat \<Rightarrow> chain_state \<Rightarrow> string list" where
  "step_final rt layerIdx st =
     (case st of (filters, currentOutput) \<Rightarrow>
        if filters \<noteq> [] then
          (if \<not> endsWith currentOutput (''[layer_'' @ idx_str rt layerIdx @ ''_final]'')
           then filters @ [currentOutput @ ''null[layer_'' @ idx_str rt layerIdx @ ''_final]'']
           else filters)
        else filters)"

definition getLayerTransformationFilters ::
  "runtime \<Rightarrow> LayerDict \<Rightarrow> nat \<Rightarrow> string \<Rightarrow> real \<Rightarrow> real \<Rightarrow> string list" where
  "getLayerTransformationFilters rt layer layerIdx currentInput canvasWidth canvasHeight =
     (let layerLabel = ''layer_'' @ idx_str rt layerIdx;
          st0 = ([], currentInput);
          st1 = step_timed rt layer layerLabel st0;
          st2 = step_crop rt layer layerLabel st1;
          st3 = step_scale rt layer layerLabel canvasWidth canvasHeight st2;
          st4 = step_rotate rt layer layerLabel st3;
          st5 = step_opacity rt layer layerLabel st4
      in step_final rt layerIdx st5)"

subsection \<open>Overlay position\<close>

text \<open>The offset suffix of every branch: \<^verbatim>\<open>d !== 0 ? `${base}${d >= 0 ? '+' : ''}${d}` : base\<close>.\<close>

definition with_offset :: "runtime \<Rightarrow> string \<Rightarrow> real \<Rightarrow> string" where
  "with_offset rt base' d =
     (if d \<noteq> 0 then base' @ (if d \<ge> 0 then ''+'' else []) @ num_str rt d else base')"

definition anchorExprs ::
  "runtime \<Rightarrow> Anchor \<Rightarrow> real \<Rightarrow> real \<Rightarrow> string \<Rightarrow> string \<Rightarrow> string \<Rightarrow> string \<Rightarrow> string \<times> string" where
  "anchorExprs rt a dx' dy' xc xr yc yb =
     (case a of
        TOP_LEFT \<Rightarrow> (with_offset rt ''0'' dx', with_offset rt ''0'' dy')
      | TOP_CENTER \<Rightarrow> (with_offset rt xc dx', with_offset rt ''0'' dy')
      | TOP_RIGHT \<Rightarrow> (with_offset rt xr dx', with_offset rt ''0'' dy')
      | CENTER_LEFT \<Rightarrow> (with_offset rt ''0'' dx', with_offset rt yc dy')
      | CENTER \<Rightarrow> (with_offset rt xc dx', with_offset rt yc dy')
      | CENTER_RIGHT \<Rightarrow> (with_offset rt xr dx', with_offset rt yc dy')
      | BOTTOM_LEFT \<Rightarrow> (with_offset rt ''0'' dx', with_offset rt yb dy')
      | BOTTOM_CENTER \<Rightarrow> (with_offset rt xc dx', with_offset rt yb dy')
      | BOTTOM_RIGHT \<Rightarrow> (with_offset rt xr dx', with_offset rt yb dy'))"

definition calculateOverlayPosition :: "runtime \<Rightarrow> LayerDict \<Rightarrow> real \<Rightarrow> real \<Rightarrow> string" where
  "calculateOverlayPosition rt layer canvasWidth canvasHeight =
     (if x_expr layer \<noteq> None \<and> x_expr layer \<noteq> Some [] \<and> y_expr layer \<noteq> None \<and> y_expr layer \<noteq> Some []
      then ''x='' @ [CHR 0x27] @ the (x_expr layer) @ [CHR 0x27] @ '':y='' @ [CHR 0x27] @
           the (y_expr layer) @ [CHR 0x27]
      else
        (let useTargetBox = (fst (size_l layer) = CANVAS_PERCENT);
             (xExpr, yExpr) =
               (if useTargetBox then
                  (case calculateTargetDimensions (size_l layer) canvasWidth canvasHeight of
                     (targetWidth, targetHeight) \<Rightarrow>
                       (let tw = num_str rt targetWidth;
                            th = num_str rt targetHeight;
                            (x0, y0) =
                              anchorExprs rt (anchor layer) (dx layer) (dy layer)
                                (''(W-'' @ tw @ '')/2'') (''W-'' @ tw)
                                (''(H-'' @ th @ '')/2'') (''H-'' @ th);
                            x1 =
                              (if anchor layer \<in> set [TOP_RIGHT, CENTER_RIGHT, BOTTOM_RIGHT]
                               then ''('' @ x0 @ '')+('' @ tw @ ''-w)''
                               else if anchor layer \<in> set [TOP_CENTER, CENTER, BOTTOM_CENTER]
                               then ''('' @ x0 @ '')+('' @ tw @ ''-w)/2''
                               else x0);
                            y1 =
                              (if anchor layer \<in> set [BOTTOM_LEFT, BOTTOM_CENTER, BOTTOM_RIGHT]
                               then ''('' @ y0 @ '')+('' @ th @ ''-h)''
                               else if anchor layer \<in> set [CENTER_LEFT, CENTER, CENTER_RIGHT]
                               then ''('' @ y0 @ '')+('' @ th @ ''-h)/2''
                               else y0)
                        in (x1, y1)))
                else
                  anchorExprs rt (anchor layer) (dx layer) (dy layer)
                    ''(W-w)/2'' ''W-w'' ''(H-h)/2'' ''H-h'')
         in ''x='' @ [CHR 0x27] @ xExpr @ [CHR 0x27] @ '':y='' @ [CHR 0x27] @ yExpr @ [CHR 0x27]))"

section \<open>Building the argument list\<close>

subsection \<open>Background input\<close>

text \<open>\<^verbatim>\<open>-ss start [-t (end - start)]\<close>, for a foreground and for a video background.\<close>

definition trimArgs :: "runtime \<Rightarrow> (real \<times> real option) option \<Rightarrow> string list" where
  "trimArgs rt trim =
     (case trim of
        None \<Rightarrow> []
      | Some (start, end') \<Rightarrow>
          [''-ss'', num_str rt start] @
          (case end' of None \<Rightarrow> [] | Some e \<Rightarrow> [''-t'', num_str rt (e - start)]))"

fun getFFmpegInputArgs ::
  "runtime \<Rightarrow> MediaContext \<Rightarrow> Background \<Rightarrow> real \<Rightarrow> real \<Rightarrow> real \<Rightarrow> string list" where
  "getFFmpegInputArgs rt ctx (ColorBackground b color) canvasWidth canvasHeight canvasFps =
     [''-f'', ''lavfi'', ''-i'',
      ''color=c='' @ color @ '':size='' @ num_str rt canvasWidth @ ''x'' @ num_str rt canvasHeight @
      '':rate='' @ num_str rt canvasFps]"
| "getFFmpegInputArgs rt ctx (ImageBackground b source) canvasWidth canvasHeight canvasFps =
     [''-loop'', ''1'', ''-i'', source]"
| "getFFmpegInputArgs rt ctx (VideoBackground b source trim vi) canvasWidth canvasHeight canvasFps =
     getDecoderArgs ctx vi @ trimArgs rt trim @ [''-i'', source]"
| "getFFmpegInputArgs rt ctx (EmptyBackground b) canvasWidth canvasHeight canvasFps =
     [''-f'', ''lavfi'', ''-i'',
      ''color=c=black@0.0:size='' @ num_str rt canvasWidth @ ''x'' @ num_str rt canvasHeight @
      '':rate='' @ num_str rt canvasFps]"

definition backgroundArgs ::
  "runtime \<Rightarrow> MediaContext \<Rightarrow> Composition \<Rightarrow> real \<Rightarrow> real \<Rightarrow> real \<Rightarrow> string list" where
  "backgroundArgs rt ctx this canvasWidth canvasHeight canvasFps =
     (case background this of
        Some bg \<Rightarrow> getFFmpegInputArgs rt ctx bg canvasWidth canvasHeight canvasFps
      | None \<Rightarrow>
          [''-f'', ''lavfi'', ''-i'',
           ''color=c=black@0.0:size='' @ num_str rt canvasWidth @ ''x'' @ num_str rt canvasHeight @
           '':rate='' @ num_str rt canvasFps])"

subsection \<open>Layer inputs, in add order\<close>

datatype AudioType = Foreground_audio | Background_audio

record AudioInput =
  input :: string
  volume :: real
  audio_type :: AudioType
  layerIndex :: "nat option"

text \<open>\<^verbatim>\<open>Math.max(...Object.values(inputMap))\<close>; the map always holds the background's entry.\<close>

definition max_value :: "inputMap \<Rightarrow> nat" where
  "max_value m = foldr max (map snd m) 0"

text \<open>
  The state of the first loop: the arguments so far, the input map, the next input index
  and the audio inputs collected so far.
\<close>

type_synonym inputs_state = "string list \<times> inputMap \<times> nat \<times> AudioInput list"

definition layerInputStep ::
  "runtime \<Rightarrow> environment \<Rightarrow> MediaContext \<Rightarrow> LayerDict \<Rightarrow> nat \<Rightarrow> inputs_state \<Rightarrow>
   error + inputs_state" where
  "layerInputStep rt env ctx layer i st =
     (case st of (argv, inputMap', inputIdx, audioInputs) \<Rightarrow>
        (case getFFmpegInputs rt env (fg layer) inputIdx i ctx
                (trimArgs rt (sourceTrim (fg layer))) [] of
           Inl e \<Rightarrow> Inl e
         | Inr (ffmpegArgs, inputMapUpdates, audioInputKey) \<Rightarrow>
             (let inputMap2 = assign inputMap' inputMapUpdates;
                  inputIdx2 = max_value inputMap2 + 1;
                  audioInputs2 =
                    (case audioInputKey of
                       None \<Rightarrow> audioInputs
                     | Some k \<Rightarrow>
                         if audio_enabled layer \<and> k \<noteq> [] \<and> map_of inputMap2 k \<noteq> None then
                           audioInputs @
                           [\<lparr>input = lookup_str rt inputMap2 k @ '':a'',
                             volume = audio_volume layer,
                             audio_type = Foreground_audio,
                             layerIndex = Some i\<rparr>]
                         else audioInputs)
              in Inr (argv @ ffmpegArgs, inputMap2, inputIdx2, audioInputs2))))"

fun layerInputsLoop ::
  "runtime \<Rightarrow> environment \<Rightarrow> MediaContext \<Rightarrow> LayerDict list \<Rightarrow> nat \<Rightarrow> inputs_state \<Rightarrow>
   error + inputs_state" where
  "layerInputsLoop rt env ctx [] i st = Inr st"
| "layerInputsLoop rt env ctx (layer # rest) i st =
     (case layerInputStep rt env ctx layer i st of
        Inl e \<Rightarrow> Inl e
      | Inr st' \<Rightarrow> layerInputsLoop rt env ctx rest (i + 1) st')"

subsection \<open>Video filters, in z order\<close>

text \<open>
  \<^verbatim>\<open>this._layers.map((layer, index) => ...).sort((a, b) => a.layer.z - b.layer.z)\<close>:
  \<^verbatim>\<open>Array.prototype.sort\<close> is stable, as is \<^const>\<open>sort_key\<close>.
\<close>

definition sortedLayers :: "Composition \<Rightarrow> (LayerDict \<times> nat) list" where
  "sortedLayers this = sort_key (\<lambda>(layer, originalIndex). z layer) (zip (layers this) [0..<length (layers this)])"

text \<open>
  One round of the compositing loop for the layer at position \<open>layerIdx\<close> of the sorted
  list of length \<open>n\<close>: the state is the list of filters and the label of the stream
  composed so far.
\<close>

definition overlayStep ::
  "runtime \<Rightarrow> inputMap \<Rightarrow> real \<Rightarrow> real \<Rightarrow> nat \<Rightarrow> LayerDict \<times> nat \<Rightarrow> nat \<Rightarrow> chain_state \<Rightarrow>
   error + chain_state" where
  "overlayStep rt inputMap' canvasWidth canvasHeight n sortedLayer layerIdx st =
     (case (sortedLayer, st) of ((layer, originalIndex), (filterParts, currentOutput)) \<Rightarrow>
        (let layerLabel = ''layer_'' @ idx_str rt originalIndex;
             alphaEnabled = alpha_enabled layer
         in (case getFFmpegFilters rt (fg layer) layerLabel inputMap' alphaEnabled of
               Inl e \<Rightarrow> Inl e
             | Inr formatFilters \<Rightarrow>
                 (case (if formatFilters \<noteq> [] then getCurrentInputLabel (fg layer) layerLabel alphaEnabled
                        else Inr (''['' @ lookup_str rt inputMap' (''layer_'' @ idx_str rt originalIndex) @
                                  '':v]'')) of
                    Inl e \<Rightarrow> Inl e
                  | Inr layerOutput0 \<Rightarrow>
                      (let transformationFilters =
                             getLayerTransformationFilters rt layer originalIndex layerOutput0
                               canvasWidth canvasHeight;
                           layerOutput =
                             (if transformationFilters \<noteq> []
                              then ''[layer_'' @ idx_str rt originalIndex @ ''_final]''
                              else layerOutput0);
                           positionParams = calculateOverlayPosition rt layer canvasWidth canvasHeight;
                           overlayParams = ''='' @ positionParams @ '':eof_action=pass'';
                           parts = filterParts @ formatFilters @ transformationFilters
                       in if layerIdx + 1 = n then
                            Inr (parts @ [currentOutput @ layerOutput @ ''overlay'' @ overlayParams @
                                          ''[out]''], currentOutput)
                          else
                            (let tempOutput = ''[tmp'' @ idx_str rt layerIdx @ '']''
                             in Inr (parts @ [currentOutput @ layerOutput @ ''overlay'' @ overlayParams @
                                              tempOutput], tempOutput)))))))"

fun overlayLoop ::
  "runtime \<Rightarrow> inputMap \<Rightarrow> real \<Rightarrow> real \<Rightarrow> nat \<Rightarrow> (LayerDict \<times> nat) list \<Rightarrow> nat \<Rightarrow> chain_state \<Rightarrow>
   error + chain_state" where
  "overlayLoop rt inputMap' canvasWidth canvasHeight n [] layerIdx st = Inr st"
| "overlayLoop rt inputMap' canvasWidth canvasHeight n (sl # rest) layerIdx st =
     (case overlayStep rt inputMap' canvasWidth canvasHeight n sl layerIdx st of
        Inl e \<Rightarrow> Inl e
      | Inr st' \<Rightarrow> overlayLoop rt inputMap' canvasWidth canvasHeight n rest (layerIdx + 1) st')"

definition videoFilterParts ::
  "runtime \<Rightarrow> inputMap \<Rightarrow> Composition \<Rightarrow> real \<Rightarrow> real \<Rightarrow> error + string list" where
  "videoFilterParts rt inputMap' this canvasWidth canvasHeight =
     (case overlayLoop rt inputMap' canvasWidth canvasHeight (length (sortedLayers this))
             (sortedLayers this) 0 ([], ''['' @ lookup_str rt inputMap' ''background'' @ '':v]'') of
        Inl e \<Rightarrow> Inl e
      | Inr (filterParts, currentOutput) \<Rightarrow> Inr filterParts)"

subsection \<open>Audio\<close>

text \<open>The background joins the audio inputs last, without a layer index.\<close>

definition withBackgroundAudio :: "runtime \<Rightarrow> inputMap \<Rightarrow> Composition \<Rightarrow> AudioInput list \<Rightarrow> AudioInput list" where
  "withBackgroundAudio rt inputMap' this audioInputs =
     (case background this of
        None \<Rightarrow> audioInputs
      | Some bg \<Rightarrow>
          if audioEnabled (base bg) \<and> hasAudio bg then
            audioInputs @
            [\<lparr>input = lookup_str rt inputMap' ''background'' @ '':a'',
              volume = audioVolume (base bg),
              audio_type = Background_audio,
              layerIndex = None\<rparr>]
          else audioInputs)"

text \<open>\<^verbatim>\<open>layer.comp_start || 0\<close> of the layer at an index, 0 when the index is out of range.\<close>

definition compStartAt :: "Composition \<Rightarrow> nat \<Rightarrow> real" where
  "compStartAt this layerIdx =
     (if layerIdx < length (layers this) then num_or (comp_start (layers this ! layerIdx)) 0 else 0)"

definition delay_ms :: "runtime \<Rightarrow> real \<Rightarrow> string" where
  "delay_ms rt compStart = num_str rt (floor_num (compStart * 1000))"

text \<open>The branch for exactly one audio input: filters and mapping arguments.\<close>

definition singleAudio :: "runtime \<Rightarrow> Composition \<Rightarrow> AudioInput \<Rightarrow> string list \<times> string list" where
  "singleAudio rt this audioInput =
     (let compStart =
            (if audio_type audioInput = Foreground_audio \<and> layerIndex audioInput \<noteq> None
             then compStartAt this (the (layerIndex audioInput)) else 0);
          needsDelay = (compStart > 0)
      in if needsDelay \<or> volume audioInput \<noteq> 1 then
           (let label0 = ''['' @ input audioInput @ '']'';
                (parts1, label1) =
                  (if needsDelay then
                     ([label0 @ ''adelay='' @ delay_ms rt compStart @ ''|'' @ delay_ms rt compStart @
                       ''[audio_delayed]''], ''[audio_delayed]'')
                   else ([], label0));
                parts2 =
                  (if volume audioInput \<noteq> 1 then
                     parts1 @ [label1 @ ''volume='' @ num_str rt (volume audioInput) @ ''[audio_out]'']
                   else if label1 \<noteq> ''[audio_out]'' then parts1 @ [label1 @ ''anull[audio_out]'']
                   else parts1)
            in (parts2, [''-map'', ''[audio_out]'']))
         else ([], [''-map'', input audioInput @ ''?'']))"

text \<open>
  One round of the loop of the branch for several audio inputs: the filters it adds and
  the label it pushes to \<^verbatim>\<open>processedAudio\<close>. The layer is looked up at
  \<^verbatim>\<open>audioInput.layerIndex || i\<close>: an unset index and the index 0 both give \<open>i\<close>.
\<close>

definition multiAudioStep :: "runtime \<Rightarrow> Composition \<Rightarrow> AudioInput \<Rightarrow> nat \<Rightarrow> string list \<times> string" where
  "multiAudioStep rt this audioInput i =
     (let layerIdx =
            (case layerIndex audioInput of
               None \<Rightarrow> i
             | Some k \<Rightarrow> if k = 0 then i else k);
          compStart = compStartAt this layerIdx;
          label0 = ''['' @ input audioInput @ '']'';
          (parts1, label1) =
            (if compStart > 0 then
               (let delayedLabel = ''[audio_delayed_'' @ idx_str rt i @ '']''
                in ([label0 @ ''adelay='' @ delay_ms rt compStart @ ''|'' @ delay_ms rt compStart @
                     delayedLabel], delayedLabel))
             else ([], label0));
          (parts2, label2) =
            (if volume audioInput \<noteq> 1 then
               (let volumeLabel = ''[audio_vol_'' @ idx_str rt i @ '']''
                in (parts1 @ [label1 @ ''volume='' @ num_str rt (volume audioInput) @ volumeLabel],
                    volumeLabel))
             else (parts1, label1))
      in (parts2, label2))"

fun multiAudioLoop ::
  "runtime \<Rightarrow> Composition \<Rightarrow> AudioInput list \<Rightarrow> nat \<Rightarrow> string list \<times> string list \<Rightarrow>
   string list \<times> string list" where
  "multiAudioLoop rt this [] i st = st"
| "multiAudioLoop rt this (audioInput # rest) i (audioFilterParts, processedAudio) =
     (case multiAudioStep rt this audioInput i of
        (parts, label) \<Rightarrow>
          multiAudioLoop rt this rest (i + 1) (audioFilterParts @ parts, processedAudio @ [label]))"

definition multiAudio :: "runtime \<Rightarrow> Composition \<Rightarrow> AudioInput list \<Rightarrow> string list \<times> string list" where
  "multiAudio rt this audioInputs =
     (case multiAudioLoop rt this audioInputs 0 ([], []) of
        (audioFilterParts, processedAudio) \<Rightarrow>
          (audioFilterParts @
           [concat processedAudio @ ''amix=inputs='' @ idx_str rt (length processedAudio) @
            '':duration=longest[audio_out]''],
           [''-map'', ''[audio_out]'']))"

text \<open>The audio filters and the audio mapping arguments, by the number of audio inputs.\<close>

definition audioParts :: "runtime \<Rightarrow> Composition \<Rightarrow> AudioInput list \<Rightarrow> string list \<times> string list" where
  "audioParts rt this audioInputs =
     (case audioInputs of
        [] \<Rightarrow> ([], [''-an''])
      | [audioInput] \<Rightarrow> singleAudio rt this audioInput
      | _ \<Rightarrow> multiAudio rt this audioInputs)"

subsection \<open>The whole argument list\<close>

definition streamFormatArgs :: "bool \<Rightarrow> string option \<Rightarrow> string list" where
  "streamFormatArgs toPipe streamFormat =
     (case streamFormat of
        None \<Rightarrow> []
      | Some f \<Rightarrow>
          if toPipe \<and> f \<noteq> [] then
            (if f = ''y4m'' then [''-f'', ''yuv4mpegpipe'']
             else if f = ''webm'' then [''-f'', ''webm'']
             else if f = ''matroska'' then [''-f'', ''matroska'']
             else if f = ''mp4_fragmented'' then [''-f'', ''mp4'', ''-movflags'', ''frag_keyframe+empty_moov'']
             else [])
          else [])"

text \<open>
  Everything up to and including the mapping arguments: inputs, the filter graph, and
  the video and audio maps. The audio inputs are returned too.
\<close>

definition argvBeforeDuration ::
  "runtime \<Rightarrow> environment \<Rightarrow> MediaContext \<Rightarrow> Composition \<Rightarrow> error + (string list \<times> AudioInput list)" where
  "argvBeforeDuration rt env ctx this =
     (case getCanvasSize this of
        Inl e \<Rightarrow> Inl e
      | Inr (canvasWidth, canvasHeight, canvasFps) \<Rightarrow>
          (let argv0 = [ffmpeg ctx, ''-y''] @ backgroundArgs rt ctx this canvasWidth canvasHeight canvasFps
           in (case layerInputsLoop rt env ctx (layers this) 0 (argv0, [(''background'', 0)], 1, []) of
                 Inl e \<Rightarrow> Inl e
               | Inr (argv1, inputMap', inputIdx, audioInputs0) \<Rightarrow>
                   (case videoFilterParts rt inputMap' this canvasWidth canvasHeight of
                      Inl e \<Rightarrow> Inl e
                    | Inr filterParts \<Rightarrow>
                        (let videoMapArgs =
                               (if filterParts \<noteq> [] then [''-map'', ''[out]'']
                                else [''-map'', lookup_str rt inputMap' ''background'' @ '':v'']);
                             audioInputs = withBackgroundAudio rt inputMap' this audioInputs0;
                             (audioFilterParts, audioMapArgs) = audioParts rt this audioInputs;
                             allFilterParts = filterParts @ audioFilterParts;
                             argv2 =
                               (if allFilterParts \<noteq> []
                                then argv1 @ [''-filter_complex'', join allFilterParts '';'']
                                else argv1)
                         in Inr (argv2 @ videoMapArgs @ audioMapArgs, audioInputs))))))"

definition argvAfterDuration ::
  "runtime \<Rightarrow> EncoderProfile \<Rightarrow> string \<Rightarrow> bool \<Rightarrow> string option \<Rightarrow> string list" where
  "argvAfterDuration rt encoder outPath toPipe streamFormat =
     (let encoderArgs = args rt encoder outPath;
          outputPath = last encoderArgs
      in butlast encoderArgs @ streamFormatArgs toPipe streamFormat @
         (if outputPath \<noteq> [] then [outputPath] else []))"

definition buildFFmpegArgv ::
  "runtime \<Rightarrow> environment \<Rightarrow> MediaContext \<Rightarrow> Composition \<Rightarrow> string \<Rightarrow> EncoderProfile \<Rightarrow> bool \<Rightarrow>
   string option \<Rightarrow> error + string list" where
  "buildFFmpegArgv rt env ctx this outPath encoder toPipe streamFormat =
     (case argvBeforeDuration rt env ctx this of
        Inl e \<Rightarrow> Inl e
      | Inr (argv, audioInputs) \<Rightarrow>
          Inr (argv @ durationArgs rt this @ argvAfterDuration rt encoder outPath toPipe streamFormat))"

definition dryRun :: "runtime \<Rightarrow> environment \<Rightarrow> MediaContext \<Rightarrow> Composition \<Rightarrow> error + string" where
  "dryRun rt env ctx this =
     (case buildFFmpegArgv rt env ctx this ''OUT.mp4'' h264 False None of
        Inl e \<Rightarrow> Inl e
      | Inr argv \<Rightarrow> Inr (join argv '' ''))"

section \<open>Duration resolution as the specification words it\<close>




section \<open>The transformation chain as the specification words it\<close>

text \<open>
  A chain of steps: every step is the text of a filter and the label of its output; it
  reads the output of the step before it, the first one reads \<open>cur\<close>.
\<close>

fun chain :: "string \<Rightarrow> (string \<times> string) list \<Rightarrow> string list" where
  "chain cur [] = []"
| "chain cur ((body, out) # rest) = (cur @ body @ out) # chain out rest"

text \<open>
  The five steps in their order, each present under its condition: the timeline shift
  when the start offset is positive, the crop when set, the scale when the size mode gives a
  target, the rotation when not 0, the opacity when not 1.
\<close>

definition timedSteps :: "runtime \<Rightarrow> LayerDict \<Rightarrow> string \<Rightarrow> (string \<times> string) list" where
  "timedSteps rt layer L =
     (case comp_start layer of
        None \<Rightarrow> []
      | Some s \<Rightarrow>
          if 0 < s
          then [(''setpts=PTS-STARTPTS,setpts=PTS+'' @ num_str rt s @ ''/TB'', ''['' @ L @ ''_timed]'')]
          else [])"

definition cropSteps :: "runtime \<Rightarrow> LayerDict \<Rightarrow> string \<Rightarrow> (string \<times> string) list" where
  "cropSteps rt layer L =
     (case crop layer of
        None \<Rightarrow> []
      | Some (x, y, w, h) \<Rightarrow>
          [(''crop='' @ num_str rt w @ '':'' @ num_str rt h @ '':'' @ num_str rt x @ '':'' @
            num_str rt y, ''['' @ L @ ''_crop]'')])"

definition scaleSteps ::
  "runtime \<Rightarrow> LayerDict \<Rightarrow> string \<Rightarrow> real \<Rightarrow> real \<Rightarrow> (string \<times> string) list" where
  "scaleSteps rt layer L canvasWidth canvasHeight =
     (case scaleTarget rt layer canvasWidth canvasHeight of
        None \<Rightarrow> []
      | Some (tw, th) \<Rightarrow>
          [(''scale='' @ tw @ '':'' @ th @
            (case getAspectRatioConstraint (fst (size_l layer)) of
               None \<Rightarrow> []
             | Some c \<Rightarrow> '':force_original_aspect_ratio='' @ c), ''['' @ L @ ''_scale]'')])"

definition rotateSteps :: "runtime \<Rightarrow> LayerDict \<Rightarrow> string \<Rightarrow> (string \<times> string) list" where
  "rotateSteps rt layer L =
     (if rotate_l layer \<noteq> 0
      then [(''rotate='' @ num_str rt (rotate_l layer) @ ''*PI/180'', ''['' @ L @ ''_rotate]'')]
      else [])"

definition opacitySteps :: "runtime \<Rightarrow> LayerDict \<Rightarrow> string \<Rightarrow> (string \<times> string) list" where
  "opacitySteps rt layer L =
     (if opacity layer \<noteq> 1
      then [(''colorchannelmixer=aa='' @ num_str rt (opacity layer), ''['' @ L @ ''_opacity]'')]
      else [])"

definition transformationSteps ::
  "runtime \<Rightarrow> LayerDict \<Rightarrow> nat \<Rightarrow> real \<Rightarrow> real \<Rightarrow> (string \<times> string) list" where
  "transformationSteps rt layer layerIdx canvasWidth canvasHeight =
     (let L = ''layer_'' @ idx_str rt layerIdx in
      timedSteps rt layer L @ cropSteps rt layer L @
      scaleSteps rt layer L canvasWidth canvasHeight @
      rotateSteps rt layer L @ opacitySteps rt layer L)"

definition finalLabel :: "runtime \<Rightarrow> nat \<Rightarrow> string" where
  "finalLabel rt layerIdx = ''[layer_'' @ idx_str rt layerIdx @ ''_final]''"

text \<open>The label that a chain ends on.\<close>

definition lab :: "string \<Rightarrow> (string \<times> string) list \<Rightarrow> string" where
  "lab cur steps = (if steps = [] then cur else snd (last steps))"

section \<open>Adding layers to a fresh composition\<close>



section \<open>Concrete inputs\<close>

subsection \<open>Environment\<close>

text \<open>
  An environment without URL parser and without archives, a probe that reports five
  seconds, and a default context.
\<close>

definition env0 :: environment where
  "env0 =
     \<lparr>url_pathname = (\<lambda>s. None),
      extract_zip = (\<lambda>s. Inl ''Error: Invalid filename''),
      file_exists = (\<lambda>s. False),
      path_join = (\<lambda>a b. a @ ''/'' @ b),
      probe_video =
        (\<lambda>s. \<lparr>codec_name = ''vp9'', duration = Some (DurationNumber 5),
              streams = Some [Some ''video'', Some ''audio'']\<rparr>),
      default_context = Inr \<lparr>ffmpeg = ''ffmpeg'', webmSupport = False\<rparr>\<rparr>"

text \<open>
  An environment whose archives unpack into \<^verbatim>\<open>/tmp/pro_bundle_1\<close> and hold the colour and
  the alpha file but no audio file; and an environment where ffmpeg cannot be run, so that
  no default context can be created.
\<close>

definition envZip :: environment where
  "envZip =
     env0\<lparr>extract_zip := (\<lambda>s. Inr ''/tmp/pro_bundle_1''),
          file_exists :=
            (\<lambda>p. p = ''/tmp/pro_bundle_1/color.mp4'' \<or> p = ''/tmp/pro_bundle_1/alpha.mp4'')\<rparr>"

definition envNoFfmpeg :: environment where
  "envNoFfmpeg = env0\<lparr>default_context := Inl (Error ''FFmpeg verification timed out'')\<rparr>"

text \<open>Archives without the colour file, and archives with the colour file only.\<close>

definition envZipEmpty :: environment where
  "envZipEmpty = envZip\<lparr>file_exists := (\<lambda>p. False)\<rparr>"

definition envZipNoAlpha :: environment where
  "envZipNoAlpha = envZip\<lparr>file_exists := (\<lambda>p. p = ''/tmp/pro_bundle_1/color.mp4'')\<rparr>"

definition ctx0 :: MediaContext where
  "ctx0 = \<lparr>ffmpeg = ''ffmpeg'', webmSupport = False\<rparr>"

subsection \<open>Backgrounds and compositions for the duration rules\<close>

text \<open>
  A video background of twenty seconds (as ffprobe reports it, a string), and compositions
  over it, over a colour and with no layer at all. The runtime \<open>rt1\<close> parses that string.
\<close>

definition bgVideo20 :: Background where
  "bgVideo20 =
     setVideoInfo_bg (new_VideoBackground ''bg.mp4'' 1920 1080 30 True 1 None)
       \<lparr>codec_name = ''h264'', duration = Some (DurationString ''20.0''),
        streams = Some [Some ''video'', Some ''audio'']\<rparr>"

definition rt1 :: runtime where
  "rt1 = \<lparr>num_str = int_num_str, parse_float = (\<lambda>s. if s = ''20.0'' then Some 20 else None)\<rparr>"



definition compEmpty :: Composition where
  "compEmpty = new_Composition (Some (new_ColorBackground ''#FF0000'' 1920 1080 30 False 1))"

subsection \<open>Layers\<close>

text \<open>A clip of a bundle with separate audio, already trimmed to the first thirty seconds.\<close>

definition clipA :: Foreground where
  "clipA =
     subclip (fromVideoAndMask (probe_video env0) ''color.mp4'' ''alpha.mp4'' (Some ''audio.m4a''))
       0 (Some 30)"

text \<open>A layer sized to the width of the canvas, built through the handle.\<close>

definition fitWidthLayer :: LayerDict where
  "fitWidthLayer =
     (let (c1, h) = add rt0 (new_Composition None) (fromWebmVp9 (probe_video env0) ''a.webm'') None
      in layers (h_size c1 h FIT_WIDTH None None None None) ! h)"

text \<open>
  A layer sized to the height of the canvas, a layer scaled to twice its own size, and a
  pixel-sized layer without dimensions (and without any other setting).
\<close>

definition fitHeightLayer :: LayerDict where
  "fitHeightLayer =
     (let (c1, h) = add rt0 (new_Composition None) (fromWebmVp9 (probe_video env0) ''a.webm'') None
      in layers (h_size c1 h FIT_HEIGHT None None None None) ! h)"

definition scaleLayer :: LayerDict where
  "scaleLayer =
     (let (c1, h) = add rt0 (new_Composition None) (fromWebmVp9 (probe_video env0) ''a.webm'') None
      in layers (h_size c1 h SCALE None None None (Some 2)) ! h)"

definition pxLayer :: LayerDict where
  "pxLayer =
     (let (c1, h) = add rt0 (new_Composition None) (fromWebmVp9 (probe_video env0) ''a.webm'') None
      in layers (h_size c1 h PX None None None None) ! h)"

text \<open>
  A layer as \<^verbatim>\<open>add\<close> leaves it; a pixel-sized layer without dimensions that starts at
  second 5; and a layer with a start, a crop, a rotation and an opacity.
\<close>

definition defaultLayer :: LayerDict where
  "defaultLayer =
     (let (c1, h) = add rt0 (new_Composition None) (fromWebmVp9 (probe_video env0) ''a.webm'') None
      in layers c1 ! h)"

definition timedPxLayer :: LayerDict where
  "timedPxLayer =
     (let (c1, h) = add rt0 (new_Composition None) (fromWebmVp9 (probe_video env0) ''a.webm'') None
      in layers (h_start (h_size c1 h PX None None None None) h 5) ! h)"

definition fullLayer :: LayerDict where
  "fullLayer =
     (let (c1, h) = add rt0 (new_Composition None) (fromWebmVp9 (probe_video env0) ''a.webm'') None
      in layers (h_opacity (h_rotate (h_crop (h_start c1 h 5) h 0 0 1080 1080) h 30) h 0) ! h)"

definition fullLayerParts :: "string list" where
  "fullLayerParts =
     [''[1:v]setpts=PTS-STARTPTS,setpts=PTS+5/TB[layer_0_timed]'',
      ''[layer_0_timed]crop=1080:1080:0:0[layer_0_crop]'',
      ''[layer_0_crop]scale=1920:1080:force_original_aspect_ratio=decrease[layer_0_scale]'',
      ''[layer_0_scale]rotate=30*PI/180[layer_0_rotate]'',
      ''[layer_0_rotate]colorchannelmixer=aa=0[layer_0_opacity]'',
      ''[layer_0_opacity]null[layer_0_final]'']"

definition centerOverlay :: string where
  "centerOverlay =
     ''overlay=x='' @ [CHR 0x27] @ ''(W-w)/2'' @ [CHR 0x27] @ '':y='' @ [CHR 0x27] @ ''(H-h)/2'' @
     [CHR 0x27] @ '':eof_action=pass''"

subsection \<open>Compositions of two layers and of a bundle\<close>




text \<open>
  A video background with an audio stream under two layers, the second one muted and
  starting at second 5; and the bundle of the matte tests over a red background, with the
  command that \<^verbatim>\<open>dryRun\<close> builds for it.
\<close>

definition compBgAudio :: Composition where
  "compBgAudio =
     (let (c1, h0) = add rt1 (new_Composition (Some bgVideo20))
                       (fromWebmVp9 (probe_video env0) ''a.webm'') None;
          (c2, h1) = add rt1 c1 (fromWebmVp9 (probe_video env0) ''b.webm'') None
      in h_start (h_audio c2 h1 False 1) h1 5)"

definition compMatte :: Composition where
  "compMatte =
     fst (add rt1 (new_Composition (Some (new_ColorBackground ''#FF0000'' 1920 1080 30 False 1)))
            (fromVideoAndMask (probe_video env0) ''video_preprocessed.mp4'' ''video_matte.mp4'' None)
            None)"

definition thresholdFilter :: string where
  "thresholdFilter =
     ''[layer_0_mask_gray]geq='' @ [CHR 0x27] @ ''if(gte(lum(X,Y),128),255,0)'' @ [CHR 0x27] @
     ''[layer_0_binary_mask]''"

definition matteCommand :: string where
  "matteCommand =
     ''ffmpeg -y -f lavfi -i color=c=#FF0000:size=1920x1080:rate=30 '' @
     ''-i video_preprocessed.mp4 -i video_matte.mp4 -filter_complex '' @
     ''[1:v]format=rgba[layer_0_rgba];[2:v]format=gray[layer_0_mask_gray];'' @
     thresholdFilter @ '';'' @
     ''[layer_0_rgba][layer_0_binary_mask]alphamerge[layer_0_merged];'' @
     ''[layer_0_merged]scale=1920:1080:force_original_aspect_ratio=decrease[layer_0_scale];'' @
     ''[layer_0_scale]null[layer_0_final];[0:v][layer_0_final]'' @ centerOverlay @ ''[out] '' @
     ''-map [out] -map 1:a? -t 5 -c:v libx264 -crf 18 -preset medium -pix_fmt yuv420p OUT.mp4''"

subsection \<open>Argument lists of the duration scenario\<close>






section \<open>Properties\<close>

subsection \<open>Format detection\<close>

lemma includes_str_iff: "includes_str s t \<longleftrightarrow> sublist t s"
  by (induction s) (simp_all add: sublist_Cons_right)

lemma includes_strI: "includes_str (p @ t @ q) t"
  by (simp add: includes_str_iff)

lemma filter_rev_upt_last:
  "P n \<Longrightarrow> (\<And>i. n < i \<Longrightarrow> i < m \<Longrightarrow> \<not> P i) \<Longrightarrow> n < m \<Longrightarrow>
   \<exists>rest. filter P (rev [0..<m]) = n # rest"
proof (induction m)
  case 0
  then show ?case by simp
next
  case (Suc m)
  show ?case
  proof (cases "n = m")
    case True
    then show ?thesis using Suc.prems by simp
  next
    case False
    then have "n < m" using Suc.prems by simp
    moreover have "\<not> P m" using Suc.prems False by simp
    ultimately show ?thesis using Suc by simp
  qed
qed

lemma lastIndexOf_append_dot:
  assumes e: "CHR ''.'' \<notin> set e"
  shows "lastIndexOf (stem @ CHR ''.'' # e) CHR ''.'' = int (length stem)"
proof -
  let ?s = "stem @ CHR ''.'' # e"
  have a: "?s ! length stem = CHR ''.''" by simp
  have b: "\<not> ?s ! i = CHR ''.''" if "length stem < i" "i < length ?s" for i
  proof -
    have "?s ! i = e ! (i - Suc (length stem))"
      using that by (simp add: nth_append nth_Cons')
    moreover have "i - Suc (length stem) < length e" using that by simp
    ultimately show ?thesis using e nth_mem by metis
  qed
  have "\<exists>rest. filter (\<lambda>i. ?s ! i = CHR ''.'') (rev [0..<length ?s]) = length stem # rest"
    by (rule filter_rev_upt_last[where P = "\<lambda>i. ?s ! i = CHR ''.''"]) (use a b in auto)
  then show ?thesis
    unfolding lastIndexOf_def by auto
qed

lemma getFileExtension_plain:
  assumes "\<not> startsWith (stem @ ''.'' @ e) ''http://''" "\<not> startsWith (stem @ ''.'' @ e) ''https://''"
    and "CHR ''.'' \<notin> set e"
  shows "getFileExtension env (stem @ ''.'' @ e) = ''.'' @ toLowerCase e"
proof -
  have "lower_char CHR ''.'' = CHR ''.''"
    by (simp add: lower_char_def)
  then show ?thesis
    using assms
    by (simp add: getFileExtension_def lastIndexOf_append_dot substring_def toLowerCase_def)
qed

lemma unknownFormatMessage_names:
  "includes_str (unknownFormatMessage path ext) ''.webm'' \<and>
   includes_str (unknownFormatMessage path ext) ''.mov'' \<and>
   includes_str (unknownFormatMessage path ext) ''.mp4'' \<and>
   includes_str (unknownFormatMessage path ext) ''.zip''"
proof -
  let ?m = "unknownFormatMessage path ext"
  let ?h = "''Unknown video format for file: '' @ path @ [CHR 0x0A] @
     ''Detected extension: '' @ (if ext = [] then ''none'' else ext) @ [CHR 0x0A] @
     ''Supported formats:'' @ [CHR 0x0A] @ ''  - ''"
  have 1: "?m = ?h @ ''.webm'' @ ('' '' @ arrow @ '' use Foreground.fromWebmVp9()'' @ [CHR 0x0A] @
     ''  - .mov  '' @ arrow @ '' use Foreground.fromMovProres()'' @ [CHR 0x0A] @
     ''  - .mp4  '' @ arrow @ '' use Foreground.fromStackedVideo()'' @ [CHR 0x0A] @
     ''  - .zip  '' @ arrow @ '' use Foreground.fromProBundleZip()'' @ [CHR 0x0A] @
     ''Or use specific format methods if you know the exact format.'')"
    by (simp add: unknownFormatMessage_def)
  have 2: "?m = (?h @ ''.webm '' @ arrow @ '' use Foreground.fromWebmVp9()'' @ [CHR 0x0A] @ ''  - '') @
     ''.mov'' @ (''  '' @ arrow @ '' use Foreground.fromMovProres()'' @ [CHR 0x0A] @
     ''  - .mp4  '' @ arrow @ '' use Foreground.fromStackedVideo()'' @ [CHR 0x0A] @
     ''  - .zip  '' @ arrow @ '' use Foreground.fromProBundleZip()'' @ [CHR 0x0A] @
     ''Or use specific format methods if you know the exact format.'')"
    by (simp add: unknownFormatMessage_def)
  have 3: "?m = (?h @ ''.webm '' @ arrow @ '' use Foreground.fromWebmVp9()'' @ [CHR 0x0A] @
     ''  - .mov  '' @ arrow @ '' use Foreground.fromMovProres()'' @ [CHR 0x0A] @ ''  - '') @
     ''.mp4'' @ (''  '' @ arrow @ '' use Foreground.fromStackedVideo()'' @ [CHR 0x0A] @
     ''  - .zip  '' @ arrow @ '' use Foreground.fromProBundleZip()'' @ [CHR 0x0A] @
     ''Or use specific format methods if you know the exact format.'')"
    by (simp add: unknownFormatMessage_def)
  have 4: "?m = (?h @ ''.webm '' @ arrow @ '' use Foreground.fromWebmVp9()'' @ [CHR 0x0A] @
     ''  - .mov  '' @ arrow @ '' use Foreground.fromMovProres()'' @ [CHR 0x0A] @
     ''  - .mp4  '' @ arrow @ '' use Foreground.fromStackedVideo()'' @ [CHR 0x0A] @ ''  - '') @
     ''.zip'' @ (''  '' @ arrow @ '' use Foreground.fromProBundleZip()'' @ [CHR 0x0A] @
     ''Or use specific format methods if you know the exact format.'')"
    by (simp add: unknownFormatMessage_def)
  show ?thesis
    using includes_strI[of _ "''.webm''"] includes_strI[of _ "''.mov''"]
      includes_strI[of _ "''.mp4''"] includes_strI[of _ "''.zip''"]
    by (metis 1 2 3 4)
qed

lemma handleZipBundle_format:
  "handleZipBundle env p = Inr f \<Longrightarrow> format f = Pro_bundle \<and> maskPath f \<noteq> None"
  by (auto simp: handleZipBundle_def fromVideoAndMask_def probeAndStore_def new_Foreground_def
      Let_def split: sum.splits if_splits)

lemma fromFile_zip:
  assumes "resolveContext env ctx = Inr c" "default_context env = Inr c'"
    and "getFileExtension env path = ''.zip''"
  shows "fromFile env path ctx = handleZipBundle env path"
  using assms by (simp add: fromFile_def fromProBundleZip_def)

lemma handleZipBundle_extracted:
  assumes "default_context env = Inr c'" "extract_zip env path = Inr dir"
    and "file_exists env (path_join env dir ''color.mp4'')"
    and "file_exists env (path_join env dir ''alpha.mp4'')"
  shows "handleZipBundle env path =
     Inr (fromVideoAndMask (probe_video env) (path_join env dir ''color.mp4'')
            (path_join env dir ''alpha.mp4'')
            (if file_exists env (path_join env dir ''audio.m4a'')
             then Some (path_join env dir ''audio.m4a'') else None))"
  using assms by (simp add: handleZipBundle_def Let_def)

lemma fromVideoAndMask_fields:
  "format (fromVideoAndMask probe v m a) = Pro_bundle \<and>
   primaryPath (fromVideoAndMask probe v m a) = v \<and>
   maskPath (fromVideoAndMask probe v m a) = Some m \<and>
   audioPath (fromVideoAndMask probe v m a) = a"
  by (simp add: fromVideoAndMask_def probeAndStore_def new_Foreground_def)

lemma example_extensions:
  "getFileExtension env ''clip.WebM'' = ''.webm''"
  "getFileExtension env ''clip.mov'' = ''.mov''"
  "getFileExtension env ''bundle.zip'' = ''.zip''"
  "getFileExtension env ''clip.mp4'' = ''.mp4''"
  "getFileExtension env ''clip.avi'' = ''.avi''"
  "getFileExtension env ''clip.webm'' = ''.webm''"
  using getFileExtension_plain[of "''clip''" "''WebM''" env]
    getFileExtension_plain[of "''clip''" "''mov''" env]
    getFileExtension_plain[of "''bundle''" "''zip''" env]
    getFileExtension_plain[of "''clip''" "''mp4''" env]
    getFileExtension_plain[of "''clip''" "''avi''" env]
    getFileExtension_plain[of "''clip''" "''webm''" env]
  by (simp_all add: startsWith_def toLowerCase_def lower_char_def)

text \<open>
  C9 (as the code has it). \<^verbatim>\<open>Foreground.fromFile\<close> first resolves the media context (the
  one passed in, else the default one) and, once it has one, decides by the extension of
  the path: \<^verbatim>\<open>.webm\<close> gives the \<^verbatim>\<open>webm_vp9\<close> format on that path, \<^verbatim>\<open>.mov\<close> gives
  \<^verbatim>\<open>mov_prores\<close>, \<^verbatim>\<open>.mp4\<close> gives \<^verbatim>\<open>stacked_video\<close>, and every other extension except
  \<^verbatim>\<open>.zip\<close> is an error whose message names the four supported extensions. \<^verbatim>\<open>.zip\<close> is
  handed to the extraction of a pro bundle, which needs the default context: an archive
  that unpacks into a directory holding \<^verbatim>\<open>color.mp4\<close> and \<^verbatim>\<open>alpha.mp4\<close> gives a
  \<^verbatim>\<open>pro_bundle\<close> whose primary path is the extracted \<^verbatim>\<open>color.mp4\<close>, whose mask is the
  extracted \<^verbatim>\<open>alpha.mp4\<close> and whose audio is the extracted \<^verbatim>\<open>audio.m4a\<close> exactly when
  that file exists; a missing \<^verbatim>\<open>color.mp4\<close> or \<^verbatim>\<open>alpha.mp4\<close> and a failed extraction are
  errors that start with \<^verbatim>\<open>Failed to extract pro bundle ZIP: \<close> and end with the cause.
  When no context can be had (none passed and the default one cannot be created, or a
  \<^verbatim>\<open>.zip\<close> path and the default one cannot be created) the call fails with the error of
  the context, whatever the extension. For a path that is not a URL the extension is the
  lower-cased text from the last dot on.
\<close>

theorem fromFile_by_extension:
  "(resolveContext env ctx = Inr c \<and> getFileExtension env path = ''.webm'' \<longrightarrow>
      (\<exists>f. fromFile env path ctx = Inr f \<and> format f = Webm_vp9 \<and> primaryPath f = path)) \<and>
   (resolveContext env ctx = Inr c \<and> getFileExtension env path = ''.mov'' \<longrightarrow>
      (\<exists>f. fromFile env path ctx = Inr f \<and> format f = Mov_prores \<and> primaryPath f = path)) \<and>
   (resolveContext env ctx = Inr c \<and> default_context env = Inr c' \<and>
    getFileExtension env path = ''.zip'' \<longrightarrow>
      fromFile env path ctx = handleZipBundle env path \<and>
      (\<forall>f. fromFile env path ctx = Inr f \<longrightarrow> format f = Pro_bundle) \<and>
      (extract_zip env path = Inr dir \<and> file_exists env (path_join env dir ''color.mp4'') \<and>
       file_exists env (path_join env dir ''alpha.mp4'') \<longrightarrow>
         (\<exists>f. fromFile env path ctx = Inr f \<and> format f = Pro_bundle \<and>
            primaryPath f = path_join env dir ''color.mp4'' \<and>
            maskPath f = Some (path_join env dir ''alpha.mp4'') \<and>
            audioPath f =
              (if file_exists env (path_join env dir ''audio.m4a'')
               then Some (path_join env dir ''audio.m4a'') else None))) \<and>
      (extract_zip env path = Inr dir \<and> \<not> file_exists env (path_join env dir ''color.mp4'') \<longrightarrow>
         fromFile env path ctx =
           Inl (Error ''Failed to extract pro bundle ZIP: Error: color.mp4 not found in pro bundle'')) \<and>
      (extract_zip env path = Inr dir \<and> file_exists env (path_join env dir ''color.mp4'') \<and>
       \<not> file_exists env (path_join env dir ''alpha.mp4'') \<longrightarrow>
         fromFile env path ctx =
           Inl (Error ''Failed to extract pro bundle ZIP: Error: alpha.mp4 not found in pro bundle'')) \<and>
      (extract_zip env path = Inl cause \<longrightarrow>
         fromFile env path ctx = Inl (Error (''Failed to extract pro bundle ZIP: '' @ cause)))) \<and>
   (resolveContext env ctx = Inr c \<and> getFileExtension env path = ''.mp4'' \<longrightarrow>
      (\<exists>f. fromFile env path ctx = Inr f \<and> format f = Stacked_video \<and> primaryPath f = path)) \<and>
   (resolveContext env ctx = Inr c \<and>
    getFileExtension env path \<notin> {''.webm'', ''.mov'', ''.zip'', ''.mp4''} \<longrightarrow>
      (\<exists>msg. fromFile env path ctx = Inl (Error msg) \<and>
         includes_str msg ''.webm'' \<and> includes_str msg ''.mov'' \<and>
         includes_str msg ''.mp4'' \<and> includes_str msg ''.zip'')) \<and>
   (resolveContext env ctx = Inl err \<longrightarrow> fromFile env path ctx = Inl err) \<and>
   (getFileExtension env path = ''.zip'' \<and> default_context env = Inl err \<longrightarrow>
      fromFile env path ctx = Inl err) \<and>
   (\<not> startsWith (stem @ ''.'' @ e) ''http://'' \<and> \<not> startsWith (stem @ ''.'' @ e) ''https://'' \<and>
    CHR ''.'' \<notin> set e \<longrightarrow>
      getFileExtension env (stem @ ''.'' @ e) = ''.'' @ toLowerCase e)"
proof (intro conjI impI; (elim conjE)?)
  assume "resolveContext env ctx = Inr c" "getFileExtension env path = ''.webm''"
  then show "\<exists>f. fromFile env path ctx = Inr f \<and> format f = Webm_vp9 \<and> primaryPath f = path"
    by (simp add: fromFile_def fromWebmVp9_def probeAndStore_def new_Foreground_def)
next
  assume "resolveContext env ctx = Inr c" "getFileExtension env path = ''.mov''"
  then show "\<exists>f. fromFile env path ctx = Inr f \<and> format f = Mov_prores \<and> primaryPath f = path"
    by (simp add: fromFile_def fromMovProres_def probeAndStore_def new_Foreground_def)
next
  assume "resolveContext env ctx = Inr c" "default_context env = Inr c'"
    "getFileExtension env path = ''.zip''"
  then show "fromFile env path ctx = handleZipBundle env path"
    by (rule fromFile_zip)
next
  assume "resolveContext env ctx = Inr c" "default_context env = Inr c'"
    "getFileExtension env path = ''.zip''"
  then have "fromFile env path ctx = handleZipBundle env path"
    by (rule fromFile_zip)
  then show "\<forall>f. fromFile env path ctx = Inr f \<longrightarrow> format f = Pro_bundle"
    using handleZipBundle_format by auto
next
  assume a: "resolveContext env ctx = Inr c" "default_context env = Inr c'"
    "getFileExtension env path = ''.zip''"
    and x: "extract_zip env path = Inr dir" "file_exists env (path_join env dir ''color.mp4'')"
      "file_exists env (path_join env dir ''alpha.mp4'')"
  have "fromFile env path ctx =
     Inr (fromVideoAndMask (probe_video env) (path_join env dir ''color.mp4'')
            (path_join env dir ''alpha.mp4'')
            (if file_exists env (path_join env dir ''audio.m4a'')
             then Some (path_join env dir ''audio.m4a'') else None))"
    using fromFile_zip[OF a] handleZipBundle_extracted[OF a(2) x] by simp
  then show "\<exists>f. fromFile env path ctx = Inr f \<and> format f = Pro_bundle \<and>
            primaryPath f = path_join env dir ''color.mp4'' \<and>
            maskPath f = Some (path_join env dir ''alpha.mp4'') \<and>
            audioPath f =
              (if file_exists env (path_join env dir ''audio.m4a'')
               then Some (path_join env dir ''audio.m4a'') else None)"
    using fromVideoAndMask_fields by blast
next
  assume a: "resolveContext env ctx = Inr c" "default_context env = Inr c'"
    "getFileExtension env path = ''.zip''"
    and x: "extract_zip env path = Inr dir" "\<not> file_exists env (path_join env dir ''color.mp4'')"
  show "fromFile env path ctx =
     Inl (Error ''Failed to extract pro bundle ZIP: Error: color.mp4 not found in pro bundle'')"
    using fromFile_zip[OF a] x by (simp add: handleZipBundle_def Let_def error_text_def)
next
  assume a: "resolveContext env ctx = Inr c" "default_context env = Inr c'"
    "getFileExtension env path = ''.zip''"
    and x: "extract_zip env path = Inr dir" "file_exists env (path_join env dir ''color.mp4'')"
      "\<not> file_exists env (path_join env dir ''alpha.mp4'')"
  show "fromFile env path ctx =
     Inl (Error ''Failed to extract pro bundle ZIP: Error: alpha.mp4 not found in pro bundle'')"
    using fromFile_zip[OF a] x by (simp add: handleZipBundle_def Let_def error_text_def)
next
  assume a: "resolveContext env ctx = Inr c" "default_context env = Inr c'"
    "getFileExtension env path = ''.zip''"
    and x: "extract_zip env path = Inl cause"
  show "fromFile env path ctx = Inl (Error (''Failed to extract pro bundle ZIP: '' @ cause))"
    using fromFile_zip[OF a] x by (simp add: handleZipBundle_def)
next
  assume "resolveContext env ctx = Inr c" "getFileExtension env path = ''.mp4''"
  then show "\<exists>f. fromFile env path ctx = Inr f \<and> format f = Stacked_video \<and> primaryPath f = path"
    by (simp add: fromFile_def fromStackedVideo_def probeAndStore_def new_Foreground_def)
next
  assume "resolveContext env ctx = Inr c"
    "getFileExtension env path \<notin> {''.webm'', ''.mov'', ''.zip'', ''.mp4''}"
  then have "fromFile env path ctx =
      Inl (Error (unknownFormatMessage path (getFileExtension env path)))"
    by (simp add: fromFile_def)
  then show "\<exists>msg. fromFile env path ctx = Inl (Error msg) \<and>
         includes_str msg ''.webm'' \<and> includes_str msg ''.mov'' \<and>
         includes_str msg ''.mp4'' \<and> includes_str msg ''.zip''"
    using unknownFormatMessage_names by blast
next
  assume "resolveContext env ctx = Inl err"
  then show "fromFile env path ctx = Inl err"
    by (simp add: fromFile_def)
next
  assume "getFileExtension env path = ''.zip''" "default_context env = Inl err"
  then show "fromFile env path ctx = Inl err"
    by (cases ctx) (simp_all add: fromFile_def resolveContext_def fromProBundleZip_def)
next
  assume "\<not> startsWith (stem @ ''.'' @ e) ''http://''" "\<not> startsWith (stem @ ''.'' @ e) ''https://''"
    "CHR ''.'' \<notin> set e"
  then show "getFileExtension env (stem @ ''.'' @ e) = ''.'' @ toLowerCase e"
    using getFileExtension_plain by blast
qed

text \<open>
  The theorem at concrete calls: one path of each supported extension and one of another
  extension with the default context, an archive with a context passed in, an archive that
  cannot be unpacked, archives without the colour or the alpha file, and a call without
  any context.
\<close>

theorem fromFile_by_extension_witness:
  "(\<exists>f. fromFile env0 ''clip.WebM'' None = Inr f \<and> format f = Webm_vp9 \<and>
      primaryPath f = ''clip.WebM'') \<and>
   (\<exists>f. fromFile env0 ''clip.mov'' None = Inr f \<and> format f = Mov_prores \<and>
      primaryPath f = ''clip.mov'') \<and>
   (\<exists>f. fromFile envZip ''bundle.zip'' (Some ctx0) = Inr f \<and> format f = Pro_bundle \<and>
      primaryPath f = ''/tmp/pro_bundle_1/color.mp4'' \<and>
      maskPath f = Some ''/tmp/pro_bundle_1/alpha.mp4'' \<and> audioPath f = None) \<and>
   fromFile env0 ''bundle.zip'' None =
     Inl (Error ''Failed to extract pro bundle ZIP: Error: Invalid filename'') \<and>
   fromFile envZipEmpty ''bundle.zip'' None =
     Inl (Error ''Failed to extract pro bundle ZIP: Error: color.mp4 not found in pro bundle'') \<and>
   fromFile envZipNoAlpha ''bundle.zip'' None =
     Inl (Error ''Failed to extract pro bundle ZIP: Error: alpha.mp4 not found in pro bundle'') \<and>
   (\<exists>f. fromFile env0 ''clip.mp4'' None = Inr f \<and> format f = Stacked_video \<and>
      primaryPath f = ''clip.mp4'') \<and>
   (\<exists>msg. fromFile env0 ''clip.avi'' None = Inl (Error msg) \<and> includes_str msg ''.webm'' \<and>
      includes_str msg ''.mov'' \<and> includes_str msg ''.mp4'' \<and> includes_str msg ''.zip'') \<and>
   fromFile envNoFfmpeg ''clip.mp4'' None = Inl (Error ''FFmpeg verification timed out'') \<and>
   fromFile envNoFfmpeg ''bundle.zip'' (Some ctx0) = Inl (Error ''FFmpeg verification timed out'')"
proof -
  let ?c = "\<lparr>ffmpeg = ''ffmpeg'', webmSupport = False\<rparr>"
  have r0: "resolveContext env0 None = Inr ?c" "default_context env0 = Inr ?c"
    by (simp_all add: resolveContext_def env0_def)
  have rz: "resolveContext envZip (Some ctx0) = Inr ctx0" "default_context envZip = Inr ?c"
    "resolveContext envZipEmpty None = Inr ?c" "default_context envZipEmpty = Inr ?c"
    "resolveContext envZipNoAlpha None = Inr ?c" "default_context envZipNoAlpha = Inr ?c"
    by (simp_all add: resolveContext_def envZip_def envZipEmpty_def envZipNoAlpha_def env0_def)
  have rn: "resolveContext envNoFfmpeg None = Inl (Error ''FFmpeg verification timed out'')"
    "default_context envNoFfmpeg = Inl (Error ''FFmpeg verification timed out'')"
    by (simp_all add: resolveContext_def envNoFfmpeg_def env0_def)
  have x: "extract_zip envZip ''bundle.zip'' = Inr ''/tmp/pro_bundle_1''"
    "extract_zip envZipEmpty ''bundle.zip'' = Inr ''/tmp/pro_bundle_1''"
    "extract_zip envZipNoAlpha ''bundle.zip'' = Inr ''/tmp/pro_bundle_1''"
    "extract_zip env0 ''bundle.zip'' = Inl ''Error: Invalid filename''"
    by (simp_all add: envZip_def envZipEmpty_def envZipNoAlpha_def env0_def)
  have j: "path_join envZip ''/tmp/pro_bundle_1'' ''color.mp4'' = ''/tmp/pro_bundle_1/color.mp4''"
    "path_join envZip ''/tmp/pro_bundle_1'' ''alpha.mp4'' = ''/tmp/pro_bundle_1/alpha.mp4''"
    "path_join envZip ''/tmp/pro_bundle_1'' ''audio.m4a'' = ''/tmp/pro_bundle_1/audio.m4a''"
    "path_join envZipEmpty ''/tmp/pro_bundle_1'' ''color.mp4'' = ''/tmp/pro_bundle_1/color.mp4''"
    "path_join envZipNoAlpha ''/tmp/pro_bundle_1'' ''color.mp4'' = ''/tmp/pro_bundle_1/color.mp4''"
    "path_join envZipNoAlpha ''/tmp/pro_bundle_1'' ''alpha.mp4'' = ''/tmp/pro_bundle_1/alpha.mp4''"
    by (simp_all add: envZip_def envZipEmpty_def envZipNoAlpha_def env0_def)
  have f: "file_exists envZip ''/tmp/pro_bundle_1/color.mp4''"
    "file_exists envZip ''/tmp/pro_bundle_1/alpha.mp4''"
    "\<not> file_exists envZip ''/tmp/pro_bundle_1/audio.m4a''"
    "\<not> file_exists envZipEmpty ''/tmp/pro_bundle_1/color.mp4''"
    "file_exists envZipNoAlpha ''/tmp/pro_bundle_1/color.mp4''"
    "\<not> file_exists envZipNoAlpha ''/tmp/pro_bundle_1/alpha.mp4''"
    by (simp_all add: envZip_def envZipEmpty_def envZipNoAlpha_def env0_def)
  note ex = example_extensions
  have 1: "\<exists>f. fromFile env0 ''clip.WebM'' None = Inr f \<and> format f = Webm_vp9 \<and>
      primaryPath f = ''clip.WebM''"
    using fromFile_by_extension[where env = env0 and ctx = "None" and c = "?c" and c' = "?c"
        and path = "''clip.WebM''" and dir = "''/tmp/pro_bundle_1''"
        and cause = "''Error: Invalid filename''"
        and err = "Error ''FFmpeg verification timed out''"
        and stem = "''clip''" and e = "''WebM''"]
      r0 ex
    by simp
  have 2: "\<exists>f. fromFile env0 ''clip.mov'' None = Inr f \<and> format f = Mov_prores \<and>
      primaryPath f = ''clip.mov''"
    using fromFile_by_extension[where env = env0 and ctx = "None" and c = "?c" and c' = "?c"
        and path = "''clip.mov''" and dir = "''/tmp/pro_bundle_1''"
        and cause = "''Error: Invalid filename''"
        and err = "Error ''FFmpeg verification timed out''"
        and stem = "''clip''" and e = "''mov''"]
      r0 ex
    by simp
  have 7: "\<exists>f. fromFile env0 ''clip.mp4'' None = Inr f \<and> format f = Stacked_video \<and>
      primaryPath f = ''clip.mp4''"
    using fromFile_by_extension[where env = env0 and ctx = "None" and c = "?c" and c' = "?c"
        and path = "''clip.mp4''" and dir = "''/tmp/pro_bundle_1''"
        and cause = "''Error: Invalid filename''"
        and err = "Error ''FFmpeg verification timed out''"
        and stem = "''clip''" and e = "''mp4''"]
      r0 ex
    by simp
  have 8: "\<exists>msg. fromFile env0 ''clip.avi'' None = Inl (Error msg) \<and> includes_str msg ''.webm'' \<and>
      includes_str msg ''.mov'' \<and> includes_str msg ''.mp4'' \<and> includes_str msg ''.zip''"
    using fromFile_by_extension[where env = env0 and ctx = "None" and c = "?c" and c' = "?c"
        and path = "''clip.avi''" and dir = "''/tmp/pro_bundle_1''"
        and cause = "''Error: Invalid filename''"
        and err = "Error ''FFmpeg verification timed out''"
        and stem = "''clip''" and e = "''avi''"]
      r0 ex
    by simp
  have 9: "fromFile envNoFfmpeg ''clip.mp4'' None = Inl (Error ''FFmpeg verification timed out'')"
    using fromFile_by_extension[where env = envNoFfmpeg and ctx = "None" and c = "?c" and c' = "?c"
        and path = "''clip.mp4''" and dir = "''/tmp/pro_bundle_1''"
        and cause = "''Error: Invalid filename''"
        and err = "Error ''FFmpeg verification timed out''"
        and stem = "''clip''" and e = "''mp4''"]
      rn
    by simp
  have 10: "fromFile envNoFfmpeg ''bundle.zip'' (Some ctx0) =
      Inl (Error ''FFmpeg verification timed out'')"
    using fromFile_by_extension[where env = envNoFfmpeg and ctx = "Some ctx0" and c = "?c" and c' = "?c"
        and path = "''bundle.zip''" and dir = "''/tmp/pro_bundle_1''"
        and cause = "''Error: Invalid filename''"
        and err = "Error ''FFmpeg verification timed out''"
        and stem = "''bundle''" and e = "''zip''"]
      rn ex
    by simp
  have 3: "\<exists>f. fromFile envZip ''bundle.zip'' (Some ctx0) = Inr f \<and> format f = Pro_bundle \<and>
      primaryPath f = ''/tmp/pro_bundle_1/color.mp4'' \<and>
      maskPath f = Some ''/tmp/pro_bundle_1/alpha.mp4'' \<and> audioPath f = None"
  proof -
    have h: "resolveContext envZip (Some ctx0) = Inr ctx0 \<and> default_context envZip = Inr ?c \<and>
        getFileExtension envZip ''bundle.zip'' = ''.zip''"
      using r0 rz ex by simp
    have g: "extract_zip envZip ''bundle.zip'' = Inr ''/tmp/pro_bundle_1'' \<and>
        file_exists envZip (path_join envZip ''/tmp/pro_bundle_1'' ''color.mp4'') \<and>
        file_exists envZip (path_join envZip ''/tmp/pro_bundle_1'' ''alpha.mp4'')"
      using x j f by simp
    note z = fromFile_by_extension[where env = envZip and ctx = "Some ctx0" and c = "ctx0" and c' = "?c"
          and path = "''bundle.zip''" and dir = "''/tmp/pro_bundle_1''"
          and cause = "''Error: Invalid filename''"
          and err = "Error ''FFmpeg verification timed out''"
          and stem = "''bundle''" and e = "''zip''"]
    note z' = z[THEN conjunct2, THEN conjunct2, THEN conjunct1, THEN mp, OF h]
    show ?thesis
      using z'[THEN conjunct2, THEN conjunct2, THEN conjunct1, THEN mp, OF g] j f by simp
  qed
  have 4: "fromFile env0 ''bundle.zip'' None =
     Inl (Error ''Failed to extract pro bundle ZIP: Error: Invalid filename'')"
  proof -
    have h: "resolveContext env0 (None) = Inr ?c \<and> default_context env0 = Inr ?c \<and>
        getFileExtension env0 ''bundle.zip'' = ''.zip''"
      using r0 rz ex by simp
    have g: "extract_zip env0 ''bundle.zip'' = Inl ''Error: Invalid filename''"
      using x j f by simp
    note z = fromFile_by_extension[where env = env0 and ctx = "None" and c = "?c" and c' = "?c"
          and path = "''bundle.zip''" and dir = "''/tmp/pro_bundle_1''"
          and cause = "''Error: Invalid filename''"
          and err = "Error ''FFmpeg verification timed out''"
          and stem = "''bundle''" and e = "''zip''"]
    note z' = z[THEN conjunct2, THEN conjunct2, THEN conjunct1, THEN mp, OF h]
    show ?thesis
      using z'[THEN conjunct2, THEN conjunct2, THEN conjunct2, THEN conjunct2, THEN conjunct2, THEN mp, OF g] by simp
  qed
  have 5: "fromFile envZipEmpty ''bundle.zip'' None =
     Inl (Error ''Failed to extract pro bundle ZIP: Error: color.mp4 not found in pro bundle'')"
  proof -
    have h: "resolveContext envZipEmpty (None) = Inr ?c \<and> default_context envZipEmpty = Inr ?c \<and>
        getFileExtension envZipEmpty ''bundle.zip'' = ''.zip''"
      using r0 rz ex by simp
    have g: "extract_zip envZipEmpty ''bundle.zip'' = Inr ''/tmp/pro_bundle_1'' \<and>
        \<not> file_exists envZipEmpty (path_join envZipEmpty ''/tmp/pro_bundle_1'' ''color.mp4'')"
      using x j f by simp
    note z = fromFile_by_extension[where env = envZipEmpty and ctx = "None" and c = "?c" and c' = "?c"
          and path = "''bundle.zip''" and dir = "''/tmp/pro_bundle_1''"
          and cause = "''Error: Invalid filename''"
          and err = "Error ''FFmpeg verification timed out''"
          and stem = "''bundle''" and e = "''zip''"]
    note z' = z[THEN conjunct2, THEN conjunct2, THEN conjunct1, THEN mp, OF h]
    show ?thesis
      using z'[THEN conjunct2, THEN conjunct2, THEN conjunct2, THEN conjunct1, THEN mp, OF g] by simp
  qed
  have 6: "fromFile envZipNoAlpha ''bundle.zip'' None =
     Inl (Error ''Failed to extract pro bundle ZIP: Error: alpha.mp4 not found in pro bundle'')"
  proof -
    have h: "resolveContext envZipNoAlpha (None) = Inr ?c \<and> default_context envZipNoAlpha = Inr ?c \<and>
        getFileExtension envZipNoAlpha ''bundle.zip'' = ''.zip''"
      using r0 rz ex by simp
    have g: "extract_zip envZipNoAlpha ''bundle.zip'' = Inr ''/tmp/pro_bundle_1'' \<and>
        file_exists envZipNoAlpha (path_join envZipNoAlpha ''/tmp/pro_bundle_1'' ''color.mp4'') \<and>
        \<not> file_exists envZipNoAlpha (path_join envZipNoAlpha ''/tmp/pro_bundle_1'' ''alpha.mp4'')"
      using x j f by simp
    note z = fromFile_by_extension[where env = envZipNoAlpha and ctx = "None" and c = "?c" and c' = "?c"
          and path = "''bundle.zip''" and dir = "''/tmp/pro_bundle_1''"
          and cause = "''Error: Invalid filename''"
          and err = "Error ''FFmpeg verification timed out''"
          and stem = "''bundle''" and e = "''zip''"]
    note z' = z[THEN conjunct2, THEN conjunct2, THEN conjunct1, THEN mp, OF h]
    show ?thesis
      using z'[THEN conjunct2, THEN conjunct2, THEN conjunct2, THEN conjunct2, THEN conjunct1, THEN mp, OF g] by simp
  qed
  show ?thesis
    by (intro conjI) (fact 1 2 3 4 5 6 7 8 9 10)+
qed

text \<open>
  The claim as worded (every call either yields the format of the extension or fails with
  an error that names the supported extensions) fails where the media context cannot be
  created: without a working ffmpeg, \<^verbatim>\<open>Foreground.fromFile('clip.webm')\<close> and
  \<^verbatim>\<open>Foreground.fromFile('clip.avi')\<close> both fail with the error of the context, which names
  no extension.
\<close>

theorem fromFile_without_context_counterexample:
  "getFileExtension envNoFfmpeg ''clip.webm'' = ''.webm'' \<and>
   fromFile envNoFfmpeg ''clip.webm'' None = Inl (Error ''FFmpeg verification timed out'') \<and>
   getFileExtension envNoFfmpeg ''clip.avi'' = ''.avi'' \<and>
   fromFile envNoFfmpeg ''clip.avi'' None = Inl (Error ''FFmpeg verification timed out'') \<and>
   \<not> includes_str ''FFmpeg verification timed out'' ''.webm''"
proof -
  have "resolveContext envNoFfmpeg None = Inl (Error ''FFmpeg verification timed out'')"
    by (simp add: resolveContext_def envNoFfmpeg_def env0_def)
  then have "fromFile envNoFfmpeg p None = Inl (Error ''FFmpeg verification timed out'')" for p
    by (simp add: fromFile_def)
  moreover have "\<not> includes_str ''FFmpeg verification timed out'' ''.webm''"
    by code_simp
  ultimately show ?thesis
    using example_extensions by simp
qed

subsection \<open>Numbers printed at the concrete inputs\<close>

lemma int_num_str_simps:
  "int_num_str 0 = ''0''" "int_num_str 1 = ''1''" "int_num_str 2 = ''2''"
  "int_num_str 1920 = ''1920''" "int_num_str 1080 = ''1080''" "int_num_str (- 1) = ''-1''"
  "int_num_str 5 = ''5''" "int_num_str 5000 = ''5000''" "int_num_str 30 = ''30''"
  "int_num_str 7 = ''7''" "int_num_str 18 = ''18''" "int_num_str 20 = ''20''"
  by (simp_all add: int_num_str_def nat_str.simps)

subsection \<open>Trimming a Foreground\<close>

text \<open>
  C7. \<^verbatim>\<open>a.subclip(start, end)\<close> allocates a new Foreground with the format and the
  primary, mask and audio locators of \<open>a\<close> and the trim \<open>[start, end]\<close>; the receiver and
  every other object of the store are unchanged; and trimming a trimmed clip replaces the
  trim: after \<^verbatim>\<open>a.subclip(1,10).subclip(2,5)\<close> the trim is \<open>[2, 5]\<close>.
\<close>

theorem subclip_fresh_object:
  "a < length st \<Longrightarrow>
   (case subclip_ref st a start end' of
      (st', b) \<Rightarrow>
        b \<noteq> a \<and> b = length st \<and> length st' = Suc (length st) \<and> take (length st) st' = st \<and>
        st' ! a = st ! a \<and>
        format (st' ! b) = format (st ! a) \<and>
        primaryPath (st' ! b) = primaryPath (st ! a) \<and>
        maskPath (st' ! b) = maskPath (st ! a) \<and>
        audioPath (st' ! b) = audioPath (st ! a) \<and>
        sourceTrim (st' ! b) = Some (start, end')) \<and>
   sourceTrim (subclip (subclip (st ! a) 1 (Some 10)) 2 (Some 5)) = Some (2, Some 5) \<and>
   (case subclip_ref st a 1 (Some 10) of
      (st1, b) \<Rightarrow>
        (case subclip_ref st1 b 2 (Some 5) of
           (st2, c) \<Rightarrow>
             sourceTrim (st2 ! c) = Some (2, Some 5) \<and> sourceTrim (st2 ! b) = Some (1, Some 10) \<and>
             st2 ! a = st ! a))"
  by (simp add: subclip_ref_def subclip_def new_Foreground_def nth_append)

theorem subclip_fresh_object_witness:
  "(case subclip_ref [clipA] 0 1 (Some 2) of
      (st', b) \<Rightarrow>
        b = 1 \<and> st' ! 0 = clipA \<and> sourceTrim (st' ! 0) = Some (0, Some 30) \<and>
        sourceTrim (st' ! b) = Some (1, Some 2) \<and>
        primaryPath (st' ! b) = ''color.mp4'' \<and> maskPath (st' ! b) = Some ''alpha.mp4'' \<and>
        audioPath (st' ! b) = Some ''audio.m4a'')"
  using subclip_fresh_object[of 0 "[clipA]" 1 "Some 2"]
  by (simp add: subclip_ref_def clipA_def subclip_def new_Foreground_def fromVideoAndMask_def
      probeAndStore_def)

subsection \<open>Colour validation\<close>

text \<open>
  C8 (as the code has it). The factory \<^verbatim>\<open>Background.fromColor\<close> rejects exactly the
  strings that do not match \<^verbatim>\<open>^#[0-9A-Fa-f]{6}$\<close> (a hash and six hexadecimal digits):
  "red", "#FFF" and "#GGGGGG" are rejected, "#FF0000" is accepted. The constructor of the
  Color variant checks nothing: it builds a background from any string.
\<close>

theorem fromColor_validates:
  "fromColor c w h f =
     (if matches_hex_color c
      then Inr (ColorBackground
                 \<lparr>width = w, height = h, fps = f, audioEnabled = False, audioVolume = 1\<rparr> c)
      else Inl (Error ''Color must be in hex format (#RRGGBB)'')) \<and>
   (matches_hex_color c \<longleftrightarrow>
      length c = 7 \<and> hd c = CHR ''#'' \<and> list_all (\<lambda>d. d \<in> set ''0123456789ABCDEFabcdef'') (tl c)) \<and>
   new_ColorBackground c w h f ae av =
     ColorBackground
       \<lparr>width = w, height = h, fps = f, audioEnabled = ae, audioVolume = max 0 (min 1 av)\<rparr> c \<and>
   isl (fromColor ''red'' w h f) \<and> isl (fromColor ''#FFF'' w h f) \<and>
   isl (fromColor ''#GGGGGG'' w h f) \<and> \<not> isl (fromColor ''#FF0000'' w h f)"
proof -
  have "matches_hex_color c \<longleftrightarrow>
      length c = 7 \<and> hd c = CHR ''#'' \<and> list_all (\<lambda>d. d \<in> set ''0123456789ABCDEFabcdef'') (tl c)"
    by (cases c) (auto simp: matches_hex_color_def list_all_iff is_hex_digit_def)
  moreover have "\<not> matches_hex_color ''red''" "\<not> matches_hex_color ''#FFF''"
    "\<not> matches_hex_color ''#GGGGGG''" "matches_hex_color ''#FF0000''"
    by (simp_all add: matches_hex_color_def is_hex_digit_def)
  ultimately show ?thesis
    by (simp add: fromColor_def new_ColorBackground_def new_BaseBackground_def)
qed

text \<open>
  The constructor does not reject: \<^verbatim>\<open>new ColorBackground('red', 1920, 1080, 30)\<close> is a
  background, and its input is the colour source \<^verbatim>\<open>color=c=red\<close>.
\<close>

theorem color_constructor_counterexample:
  "\<not> matches_hex_color ''red'' \<and>
   new_ColorBackground ''red'' 1920 1080 30 False 1 =
     ColorBackground
       \<lparr>width = 1920, height = 1080, fps = 30, audioEnabled = False, audioVolume = 1\<rparr> ''red'' \<and>
   getFFmpegInputArgs rt0 ctx0 (new_ColorBackground ''red'' 1920 1080 30 False 1) 1920 1080 30 =
     [''-f'', ''lavfi'', ''-i'', ''color=c=red:size=1920x1080:rate=30'']"
  by (simp add: matches_hex_color_def is_hex_digit_def new_ColorBackground_def
      new_BaseBackground_def rt0_def int_num_str_simps)

subsection \<open>Duration resolution\<close>






lemma buildFFmpegArgv_split:
  "buildFFmpegArgv rt env ctx this outPath encoder toPipe sf =
     (case argvBeforeDuration rt env ctx this of
        Inl e \<Rightarrow> Inl e
      | Inr (argv, ais) \<Rightarrow>
          Inr (argv @ durationArgs rt this @ argvAfterDuration rt encoder outPath toPipe sf))"
  by (simp add: buildFFmpegArgv_def)









lemma h264_after:
  "argvAfterDuration rt1 h264 ''OUT.mp4'' False None =
     [''-c:v'', ''libx264'', ''-crf'', ''18'', ''-preset'', ''medium'', ''-pix_fmt'', ''yuv420p'',
      ''OUT.mp4'']"
  by code_simp




lemma durationArgs_zero: "getCompositionDuration rt this = Some 0 \<Longrightarrow> durationArgs rt this = []"
  by (simp add: durationArgs_def)

lemma getCompositionDuration_setDuration:
  "getCompositionDuration rt (setDuration this d) = Some d"
  by (simp add: getCompositionDuration_def setDuration_def new_Composition_def)

text \<open>
  C10. A resolved duration of 0 emits no \<^verbatim>\<open>-t\<close> limit, because the emission tests
  truthiness: after \<^verbatim>\<open>setDuration(0)\<close> the resolved duration is 0 and the built list runs
  from the mapping arguments straight to the encoder arguments, while a positive explicit
  duration \<open>d\<close> emits \<^verbatim>\<open>-t d\<close> there.
\<close>

theorem zero_duration_emits_no_limit:
  "(getCompositionDuration rt this = Some 0 \<longrightarrow>
      durationArgs rt this = [] \<and>
      buildFFmpegArgv rt env ctx this outPath encoder toPipe sf =
        (case argvBeforeDuration rt env ctx this of
           Inl e \<Rightarrow> Inl e
         | Inr (argv, ais) \<Rightarrow> Inr (argv @ argvAfterDuration rt encoder outPath toPipe sf))) \<and>
   getCompositionDuration rt (setDuration this 0) = Some 0 \<and>
   durationArgs rt (setDuration this 0) = [] \<and>
   (0 < d \<longrightarrow>
      getCompositionDuration rt (setDuration this d) = Some d \<and>
      durationArgs rt (setDuration this d) = [''-t'', num_str rt d] \<and>
      buildFFmpegArgv rt env ctx (setDuration this d) outPath encoder toPipe sf =
        (case argvBeforeDuration rt env ctx (setDuration this d) of
           Inl e \<Rightarrow> Inl e
         | Inr (argv, ais) \<Rightarrow>
             Inr (argv @ [''-t'', num_str rt d] @ argvAfterDuration rt encoder outPath toPipe sf)))"
proof (intro conjI impI)
  assume z: "getCompositionDuration rt this = Some 0"
  then show dz: "durationArgs rt this = []" by (rule durationArgs_zero)
  show "buildFFmpegArgv rt env ctx this outPath encoder toPipe sf =
        (case argvBeforeDuration rt env ctx this of
           Inl e \<Rightarrow> Inl e
         | Inr (argv, ais) \<Rightarrow> Inr (argv @ argvAfterDuration rt encoder outPath toPipe sf))"
    by (simp add: buildFFmpegArgv_split dz split: sum.splits)
next
  show "getCompositionDuration rt (setDuration this 0) = Some 0"
    by (rule getCompositionDuration_setDuration)
  then show "durationArgs rt (setDuration this 0) = []" by (rule durationArgs_zero)
next
  assume d: "0 < d"
  show "getCompositionDuration rt (setDuration this d) = Some d"
    by (rule getCompositionDuration_setDuration)
  then show dd: "durationArgs rt (setDuration this d) = [''-t'', num_str rt d]"
    using d by (simp add: durationArgs_def)
  show "buildFFmpegArgv rt env ctx (setDuration this d) outPath encoder toPipe sf =
        (case argvBeforeDuration rt env ctx (setDuration this d) of
           Inl e \<Rightarrow> Inl e
         | Inr (argv, ais) \<Rightarrow>
             Inr (argv @ [''-t'', num_str rt d] @ argvAfterDuration rt encoder outPath toPipe sf))"
    by (simp add: buildFFmpegArgv_split dd split: sum.splits)
qed

lemma compEmpty_setDuration_before:
  "argvBeforeDuration rt1 env0 ctx0 (setDuration compEmpty 0) =
     Inr ([''ffmpeg'', ''-y'', ''-f'', ''lavfi'', ''-i'', ''color=c=#FF0000:size=1920x1080:rate=30'',
           ''-map'', ''0:v'', ''-an''], [])"
  "argvBeforeDuration rt1 env0 ctx0 (setDuration compEmpty 7) =
     Inr ([''ffmpeg'', ''-y'', ''-f'', ''lavfi'', ''-i'', ''color=c=#FF0000:size=1920x1080:rate=30'',
           ''-map'', ''0:v'', ''-an''], [])"
  by code_simp+

theorem zero_duration_emits_no_limit_witness:
  "getCompositionDuration rt1 (setDuration compEmpty 0) = Some 0 \<and>
   buildFFmpegArgv rt1 env0 ctx0 (setDuration compEmpty 0) ''OUT.mp4'' h264 False None =
     Inr [''ffmpeg'', ''-y'', ''-f'', ''lavfi'', ''-i'', ''color=c=#FF0000:size=1920x1080:rate=30'',
          ''-map'', ''0:v'', ''-an'',
          ''-c:v'', ''libx264'', ''-crf'', ''18'', ''-preset'', ''medium'', ''-pix_fmt'', ''yuv420p'',
          ''OUT.mp4''] \<and>
   (0::real) < 7 \<and>
   buildFFmpegArgv rt1 env0 ctx0 (setDuration compEmpty 7) ''OUT.mp4'' h264 False None =
     Inr [''ffmpeg'', ''-y'', ''-f'', ''lavfi'', ''-i'', ''color=c=#FF0000:size=1920x1080:rate=30'',
          ''-map'', ''0:v'', ''-an'', ''-t'', ''7'',
          ''-c:v'', ''libx264'', ''-crf'', ''18'', ''-preset'', ''medium'', ''-pix_fmt'', ''yuv420p'',
          ''OUT.mp4'']"
proof -
  have n7: "num_str rt1 7 = ''7''"
    by (simp add: rt1_def int_num_str_simps)
  show ?thesis
    using zero_duration_emits_no_limit[of rt1 "setDuration compEmpty 0" env0 ctx0 "''OUT.mp4''" h264 False None 7]
      zero_duration_emits_no_limit[of rt1 compEmpty env0 ctx0 "''OUT.mp4''" h264 False None 7]
    by (simp add: compEmpty_setDuration_before h264_after getCompositionDuration_setDuration n7)
qed

subsection \<open>Layer transformations\<close>

lemma chain_append: "chain c (xs @ ys) = chain c xs @ chain (lab c xs) ys"
  by (induction xs arbitrary: c) (auto simp: lab_def)

lemma lab_append: "lab c (xs @ ys) = lab (lab c xs) ys"
  by (simp add: lab_def)

lemma chain_Nil_iff: "chain c xs = [] \<longleftrightarrow> xs = []"
  by (cases xs) auto

lemma step_timed_chain:
  "step_timed rt layer L (fs, c) = (fs @ chain c (timedSteps rt layer L), lab c (timedSteps rt layer L))"
  by (simp add: step_timed_def timedSteps_def lab_def Let_def split: option.splits)

lemma step_crop_chain:
  "step_crop rt layer L (fs, c) = (fs @ chain c (cropSteps rt layer L), lab c (cropSteps rt layer L))"
  by (simp add: step_crop_def cropSteps_def lab_def Let_def split: option.splits)

lemma step_scale_chain:
  "step_scale rt layer L w h (fs, c) =
     (fs @ chain c (scaleSteps rt layer L w h), lab c (scaleSteps rt layer L w h))"
  by (simp add: step_scale_def scaleSteps_def lab_def Let_def split: option.splits)

lemma step_rotate_chain:
  "step_rotate rt layer L (fs, c) = (fs @ chain c (rotateSteps rt layer L), lab c (rotateSteps rt layer L))"
  by (simp add: step_rotate_def rotateSteps_def lab_def Let_def)

lemma step_opacity_chain:
  "step_opacity rt layer L (fs, c) =
     (fs @ chain c (opacitySteps rt layer L), lab c (opacitySteps rt layer L))"
  by (simp add: step_opacity_def opacitySteps_def lab_def Let_def)

lemma not_final:
  "\<not> endsWith (q @ ''_timed]'') (p @ ''_final]'')"
  "\<not> endsWith (q @ ''_crop]'') (p @ ''_final]'')"
  "\<not> endsWith (q @ ''_scale]'') (p @ ''_final]'')"
  "\<not> endsWith (q @ ''_rotate]'') (p @ ''_final]'')"
  "\<not> endsWith (q @ ''_opacity]'') (p @ ''_final]'')"
  by (simp_all add: endsWith_def suffix_to_prefix)

lemma step_labels:
  "l \<in> snd ` set (transformationSteps rt layer i w h) \<Longrightarrow>
   l \<in> {''['' @ ''layer_'' @ idx_str rt i @ ''_timed]'', ''['' @ ''layer_'' @ idx_str rt i @ ''_crop]'',
        ''['' @ ''layer_'' @ idx_str rt i @ ''_scale]'', ''['' @ ''layer_'' @ idx_str rt i @ ''_rotate]'',
        ''['' @ ''layer_'' @ idx_str rt i @ ''_opacity]''}"
  unfolding transformationSteps_def Let_def timedSteps_def cropSteps_def scaleSteps_def
    rotateSteps_def opacitySteps_def
  by (auto split: option.splits if_splits)

lemma step_label_not_final:
  assumes "l \<in> snd ` set (transformationSteps rt layer i w h)"
  shows "\<not> endsWith l (finalLabel rt i)"
proof -
  have f: "finalLabel rt i = (''[layer_'' @ idx_str rt i) @ ''_final]''"
    by (simp add: finalLabel_def)
  have "l = (''[layer_'' @ idx_str rt i) @ ''_timed]'' \<or> l = (''[layer_'' @ idx_str rt i) @ ''_crop]'' \<or>
        l = (''[layer_'' @ idx_str rt i) @ ''_scale]'' \<or> l = (''[layer_'' @ idx_str rt i) @ ''_rotate]'' \<or>
        l = (''[layer_'' @ idx_str rt i) @ ''_opacity]''"
    using step_labels[OF assms] by simp
  then show ?thesis
    unfolding f using not_final[of "''[layer_'' @ idx_str rt i" "''[layer_'' @ idx_str rt i"]
    by metis
qed

lemma transformation_chain:
  "getLayerTransformationFilters rt layer layerIdx currentInput canvasWidth canvasHeight =
     (let steps = transformationSteps rt layer layerIdx canvasWidth canvasHeight in
      if steps = [] then [] else chain currentInput (steps @ [(''null'', finalLabel rt layerIdx)]))"
proof -
  let ?L = "''layer_'' @ idx_str rt layerIdx"
  let ?steps = "transformationSteps rt layer layerIdx canvasWidth canvasHeight"
  have st: "step_opacity rt layer ?L
              (step_rotate rt layer ?L
                (step_scale rt layer ?L canvasWidth canvasHeight
                  (step_crop rt layer ?L
                    (step_timed rt layer ?L ([], currentInput))))) =
            (chain currentInput ?steps, lab currentInput ?steps)"
    by (simp add: step_timed_chain step_crop_chain step_scale_chain step_rotate_chain
        step_opacity_chain transformationSteps_def Let_def chain_append lab_append)
  have g: "getLayerTransformationFilters rt layer layerIdx currentInput canvasWidth canvasHeight =
      step_final rt layerIdx (chain currentInput ?steps, lab currentInput ?steps)"
    unfolding getLayerTransformationFilters_def Let_def st ..
  show ?thesis
  proof (cases "?steps = []")
    case True
    then show ?thesis by (simp add: g step_final_def)
  next
    case False
    then have "snd (last ?steps) \<in> snd ` set ?steps" by simp
    then have nf: "\<not> endsWith (snd (last ?steps)) (finalLabel rt layerIdx)"
      by (rule step_label_not_final)
    have l: "lab currentInput ?steps = snd (last ?steps)" using False by (simp add: lab_def)
    show ?thesis
      using False nf
      by (simp add: g step_final_def chain_Nil_iff chain_append l finalLabel_def Let_def)
  qed
qed

lemma overlayStep_parts:
  assumes "overlayStep rt m w h n (layer, i) k (parts, c0) = Inr (parts', c1)"
  shows "\<exists>ff lbl.
     getFFmpegFilters rt (fg layer) (''layer_'' @ idx_str rt i) m (alpha_enabled layer) = Inr ff \<and>
     parts' = parts @ ff @ getLayerTransformationFilters rt layer i lbl w h @
       [c0 @ (if getLayerTransformationFilters rt layer i lbl w h \<noteq> [] then finalLabel rt i else lbl) @
        ''overlay='' @ calculateOverlayPosition rt layer w h @ '':eof_action=pass'' @
        (if k + 1 = n then ''[out]'' else ''[tmp'' @ idx_str rt k @ '']'')] \<and>
     c1 = (if k + 1 = n then c0 else ''[tmp'' @ idx_str rt k @ '']'')"
  using assms
  unfolding overlayStep_def Let_def finalLabel_def
  by (auto split: sum.splits if_splits)

lemma transformation_nonempty:
  "getLayerTransformationFilters rt layer i lbl w h \<noteq> [] \<longleftrightarrow> transformationSteps rt layer i w h \<noteq> []"
  by (simp add: transformation_chain Let_def chain_append chain_Nil_iff)

lemma scaleTarget_None_iff:
  "scaleTarget rt layer w h = None \<longleftrightarrow>
     fst (size_l layer) = PX \<and>
     (fst (snd (size_l layer)) = None \<or> fst (snd (size_l layer)) = Some 0 \<or>
      fst (snd (snd (size_l layer))) = None \<or> fst (snd (snd (size_l layer))) = Some 0)"
proof -
  obtain sm a b c d where s: "size_l layer = (sm, a, b, c, d)"
    by (metis prod_cases5)
  show ?thesis
    unfolding scaleTarget_def s
    by (cases sm; cases a; cases b; cases d) (auto split: prod.splits)
qed

lemma step_labels_distinct:
  "distinct (map snd (transformationSteps rt layer i w h @ [(''null'', finalLabel rt i)]))"
  unfolding transformationSteps_def Let_def timedSteps_def cropSteps_def scaleSteps_def
    rotateSteps_def opacitySteps_def finalLabel_def
  by (auto split: option.splits)

lemma overlayStep_value:
  assumes f: "getFFmpegFilters rt (fg layer) (''layer_'' @ idx_str rt i) m (alpha_enabled layer) = Inr ff"
    and l: "(if ff \<noteq> []
         then getCurrentInputLabel (fg layer) (''layer_'' @ idx_str rt i) (alpha_enabled layer)
         else Inr (''['' @ lookup_str rt m (''layer_'' @ idx_str rt i) @ '':v]'')) = Inr lbl"
  shows "overlayStep rt m w h n (layer, i) k (parts, c0) =
     Inr (parts @ ff @ getLayerTransformationFilters rt layer i lbl w h @
          [c0 @ (if getLayerTransformationFilters rt layer i lbl w h \<noteq> [] then finalLabel rt i else lbl) @
           ''overlay='' @ calculateOverlayPosition rt layer w h @ '':eof_action=pass'' @
           (if k + 1 = n then ''[out]'' else ''[tmp'' @ idx_str rt k @ '']'')],
          if k + 1 = n then c0 else ''[tmp'' @ idx_str rt k @ '']'')"
  unfolding overlayStep_def Let_def finalLabel_def
  using f l by (auto split: sum.splits if_splits)

text \<open>
  C5 (as the code has it). The transformation filters of a layer are the chain of the steps
  timeline shift (only when the start offset is positive), crop (only when set), scale
  (for every size mode except pixel mode with a missing or zero width or height), rotate
  (only when the rotation is not 0) and opacity (only when not 1), in this order; when at
  least one step is present a closing \<^verbatim>\<open>null\<close> filter gives the chain the label
  \<^verbatim>\<open>[layer_i_final]\<close>; each step reads the label the step before it wrote, the labels are
  pairwise distinct. The round of the compositing loop for the layer appends the
  normalisation filters of its foreground, then this chain, started on the normalised label
  (the label the normalisation filters end on, or the input \<^verbatim>\<open>[n:v]\<close> of the layer when there
  are none), then the overlay: with at least one step the overlay reads the composed stream
  and \<^verbatim>\<open>[layer_i_final]\<close>; with no step there is no chain and no final label, and the
  overlay reads the composed stream and the normalised label directly.
\<close>

theorem layer_transformation_order:
  "getLayerTransformationFilters rt layer i cur w h =
     (let steps = transformationSteps rt layer i w h in
      if steps = [] then [] else chain cur (steps @ [(''null'', finalLabel rt i)])) \<and>
   distinct (map snd (transformationSteps rt layer i w h @ [(''null'', finalLabel rt i)])) \<and>
   (scaleSteps rt layer (''layer_'' @ idx_str rt i) w h = [] \<longleftrightarrow>
      fst (size_l layer) = PX \<and>
      (fst (snd (size_l layer)) = None \<or> fst (snd (size_l layer)) = Some 0 \<or>
       fst (snd (snd (size_l layer))) = None \<or> fst (snd (snd (size_l layer))) = Some 0)) \<and>
   (overlayStep rt m w h n (layer, i) k (parts, c0) = Inr (parts', c1) \<and>
    transformationSteps rt layer i w h \<noteq> [] \<longrightarrow>
      (\<exists>ff lbl.
         parts' = parts @ ff @
           chain lbl (transformationSteps rt layer i w h @ [(''null'', finalLabel rt i)]) @
           [c0 @ finalLabel rt i @ ''overlay='' @ calculateOverlayPosition rt layer w h @
            '':eof_action=pass'' @ (if k + 1 = n then ''[out]'' else ''[tmp'' @ idx_str rt k @ '']'')])) \<and>
   (getFFmpegFilters rt (fg layer) (''layer_'' @ idx_str rt i) m (alpha_enabled layer) = Inr ff \<and>
    (if ff \<noteq> []
     then getCurrentInputLabel (fg layer) (''layer_'' @ idx_str rt i) (alpha_enabled layer)
     else Inr (''['' @ lookup_str rt m (''layer_'' @ idx_str rt i) @ '':v]'')) = Inr lbl \<and>
    transformationSteps rt layer i w h \<noteq> [] \<longrightarrow>
      overlayStep rt m w h n (layer, i) k (parts, c0) =
        Inr (parts @ ff @
             chain lbl (transformationSteps rt layer i w h @ [(''null'', finalLabel rt i)]) @
             [c0 @ finalLabel rt i @ ''overlay='' @ calculateOverlayPosition rt layer w h @
              '':eof_action=pass'' @ (if k + 1 = n then ''[out]'' else ''[tmp'' @ idx_str rt k @ '']'')],
             if k + 1 = n then c0 else ''[tmp'' @ idx_str rt k @ '']'')) \<and>
   (getFFmpegFilters rt (fg layer) (''layer_'' @ idx_str rt i) m (alpha_enabled layer) = Inr ff \<and>
    (if ff \<noteq> []
     then getCurrentInputLabel (fg layer) (''layer_'' @ idx_str rt i) (alpha_enabled layer)
     else Inr (''['' @ lookup_str rt m (''layer_'' @ idx_str rt i) @ '':v]'')) = Inr lbl \<and>
    transformationSteps rt layer i w h = [] \<longrightarrow>
      getLayerTransformationFilters rt layer i lbl w h = [] \<and>
      overlayStep rt m w h n (layer, i) k (parts, c0) =
        Inr (parts @ ff @
             [c0 @ lbl @ ''overlay='' @ calculateOverlayPosition rt layer w h @
              '':eof_action=pass'' @ (if k + 1 = n then ''[out]'' else ''[tmp'' @ idx_str rt k @ '']'')],
             if k + 1 = n then c0 else ''[tmp'' @ idx_str rt k @ '']''))"
proof (intro conjI impI)
  show "getLayerTransformationFilters rt layer i cur w h =
     (let steps = transformationSteps rt layer i w h in
      if steps = [] then [] else chain cur (steps @ [(''null'', finalLabel rt i)]))"
    by (rule transformation_chain)
next
  show "distinct (map snd (transformationSteps rt layer i w h @ [(''null'', finalLabel rt i)]))"
    by (rule step_labels_distinct)
next
  show "scaleSteps rt layer (''layer_'' @ idx_str rt i) w h = [] \<longleftrightarrow>
      fst (size_l layer) = PX \<and>
      (fst (snd (size_l layer)) = None \<or> fst (snd (size_l layer)) = Some 0 \<or>
       fst (snd (snd (size_l layer))) = None \<or> fst (snd (snd (size_l layer))) = Some 0)"
    using scaleTarget_None_iff[of rt layer w h]
    by (auto simp: scaleSteps_def split: option.splits)
next
  assume a: "overlayStep rt m w h n (layer, i) k (parts, c0) = Inr (parts', c1) \<and>
    transformationSteps rt layer i w h \<noteq> []"
  then obtain ff lbl where
    p: "parts' = parts @ ff @ getLayerTransformationFilters rt layer i lbl w h @
       [c0 @ (if getLayerTransformationFilters rt layer i lbl w h \<noteq> [] then finalLabel rt i else lbl) @
        ''overlay='' @ calculateOverlayPosition rt layer w h @ '':eof_action=pass'' @
        (if k + 1 = n then ''[out]'' else ''[tmp'' @ idx_str rt k @ '']'')]"
    using overlayStep_parts by blast
  have ne: "getLayerTransformationFilters rt layer i lbl w h \<noteq> []"
    using a by (simp add: transformation_nonempty)
  have c: "getLayerTransformationFilters rt layer i lbl w h =
      chain lbl (transformationSteps rt layer i w h @ [(''null'', finalLabel rt i)])"
    using a by (simp add: transformation_chain Let_def)
  show "\<exists>ff lbl.
         parts' = parts @ ff @
           chain lbl (transformationSteps rt layer i w h @ [(''null'', finalLabel rt i)]) @
           [c0 @ finalLabel rt i @ ''overlay='' @ calculateOverlayPosition rt layer w h @
            '':eof_action=pass'' @ (if k + 1 = n then ''[out]'' else ''[tmp'' @ idx_str rt k @ '']'')]"
    using p ne c by (intro exI[of _ ff] exI[of _ lbl]) simp
next
  assume a: "getFFmpegFilters rt (fg layer) (''layer_'' @ idx_str rt i) m (alpha_enabled layer) = Inr ff \<and>
    (if ff \<noteq> []
     then getCurrentInputLabel (fg layer) (''layer_'' @ idx_str rt i) (alpha_enabled layer)
     else Inr (''['' @ lookup_str rt m (''layer_'' @ idx_str rt i) @ '':v]'')) = Inr lbl \<and>
    transformationSteps rt layer i w h \<noteq> []"
  have ne: "getLayerTransformationFilters rt layer i lbl w h \<noteq> []"
    using a by (simp add: transformation_nonempty)
  have c: "getLayerTransformationFilters rt layer i lbl w h =
      chain lbl (transformationSteps rt layer i w h @ [(''null'', finalLabel rt i)])"
    using a by (simp add: transformation_chain Let_def)
  have "overlayStep rt m w h n (layer, i) k (parts, c0) =
     Inr (parts @ ff @ getLayerTransformationFilters rt layer i lbl w h @
          [c0 @ (if getLayerTransformationFilters rt layer i lbl w h \<noteq> [] then finalLabel rt i else lbl) @
           ''overlay='' @ calculateOverlayPosition rt layer w h @ '':eof_action=pass'' @
           (if k + 1 = n then ''[out]'' else ''[tmp'' @ idx_str rt k @ '']'')],
          if k + 1 = n then c0 else ''[tmp'' @ idx_str rt k @ '']'')"
    using a by (intro overlayStep_value) simp_all
  then show "overlayStep rt m w h n (layer, i) k (parts, c0) =
        Inr (parts @ ff @
             chain lbl (transformationSteps rt layer i w h @ [(''null'', finalLabel rt i)]) @
             [c0 @ finalLabel rt i @ ''overlay='' @ calculateOverlayPosition rt layer w h @
              '':eof_action=pass'' @ (if k + 1 = n then ''[out]'' else ''[tmp'' @ idx_str rt k @ '']'')],
             if k + 1 = n then c0 else ''[tmp'' @ idx_str rt k @ '']'')"
    using ne unfolding c by simp
next
  assume a: "getFFmpegFilters rt (fg layer) (''layer_'' @ idx_str rt i) m (alpha_enabled layer) = Inr ff \<and>
    (if ff \<noteq> []
     then getCurrentInputLabel (fg layer) (''layer_'' @ idx_str rt i) (alpha_enabled layer)
     else Inr (''['' @ lookup_str rt m (''layer_'' @ idx_str rt i) @ '':v]'')) = Inr lbl \<and>
    transformationSteps rt layer i w h = []"
  show e: "getLayerTransformationFilters rt layer i lbl w h = []"
    using a by (simp add: transformation_chain Let_def)
  have "overlayStep rt m w h n (layer, i) k (parts, c0) =
     Inr (parts @ ff @ getLayerTransformationFilters rt layer i lbl w h @
          [c0 @ (if getLayerTransformationFilters rt layer i lbl w h \<noteq> [] then finalLabel rt i else lbl) @
           ''overlay='' @ calculateOverlayPosition rt layer w h @ '':eof_action=pass'' @
           (if k + 1 = n then ''[out]'' else ''[tmp'' @ idx_str rt k @ '']'')],
          if k + 1 = n then c0 else ''[tmp'' @ idx_str rt k @ '']'')"
    using a by (intro overlayStep_value) simp_all
  then show "overlayStep rt m w h n (layer, i) k (parts, c0) =
        Inr (parts @ ff @
             [c0 @ lbl @ ''overlay='' @ calculateOverlayPosition rt layer w h @
              '':eof_action=pass'' @ (if k + 1 = n then ''[out]'' else ''[tmp'' @ idx_str rt k @ '']'')],
             if k + 1 = n then c0 else ''[tmp'' @ idx_str rt k @ '']'')"
    unfolding e by simp
qed

lemma fullLayer_eval:
  "overlayStep rt0 [(''background'', 0), (''layer_0'', 1)] 1920 1080 1 (fullLayer, 0) 0 ([], ''[0:v]'') =
     Inr (fullLayerParts @ [''[0:v][layer_0_final]'' @ centerOverlay @ ''[out]''], ''[0:v]'')"
  "getLayerTransformationFilters rt0 fullLayer 0 ''[1:v]'' 1920 1080 = fullLayerParts"
  "transformationSteps rt0 fullLayer 0 1920 1080 \<noteq> []"
  by code_simp+

lemma pxLayer_eval:
  "getFFmpegFilters rt0 (fg pxLayer) (''layer_'' @ idx_str rt0 0)
     [(''background'', 0), (''layer_0'', 1)] (alpha_enabled pxLayer) = Inr []"
  "''['' @ lookup_str rt0 [(''background'', 0), (''layer_0'', 1)] (''layer_'' @ idx_str rt0 0) @ '':v]'' =
     ''[1:v]''"
  "transformationSteps rt0 pxLayer 0 1920 1080 = []"
  "''overlay='' @ calculateOverlayPosition rt0 pxLayer 1920 1080 @ '':eof_action=pass'' = centerOverlay"
  "getFFmpegFilters rt0 (fg fullLayer) (''layer_'' @ idx_str rt0 0)
     [(''background'', 0), (''layer_0'', 1)] (alpha_enabled fullLayer) = Inr []"
  "''overlay='' @ calculateOverlayPosition rt0 fullLayer 1920 1080 @ '':eof_action=pass'' = centerOverlay"
  "chain ''[1:v]'' (transformationSteps rt0 fullLayer 0 1920 1080 @ [(''null'', finalLabel rt0 0)]) =
     fullLayerParts"
  "finalLabel rt0 0 = ''[layer_0_final]''"
  by code_simp+

text \<open>
  The theorem at a layer with a start, a crop, a rotation and an opacity, whose overlay
  reads \<^verbatim>\<open>[layer_0_final]\<close>, and at a pixel-sized layer without dimensions, which has no
  step: its overlay reads the input \<^verbatim>\<open>[1:v]\<close> directly.
\<close>

theorem layer_transformation_order_witness:
  "overlayStep rt0 [(''background'', 0), (''layer_0'', 1)] 1920 1080 1 (fullLayer, 0) 0 ([], ''[0:v]'') =
     Inr (fullLayerParts @ [''[0:v][layer_0_final]'' @ centerOverlay @ ''[out]''], ''[0:v]'') \<and>
   transformationSteps rt0 fullLayer 0 1920 1080 \<noteq> [] \<and>
   getLayerTransformationFilters rt0 fullLayer 0 ''[1:v]'' 1920 1080 =
     chain ''[1:v]'' (transformationSteps rt0 fullLayer 0 1920 1080 @ [(''null'', finalLabel rt0 0)]) \<and>
   (\<exists>ff lbl.
      fullLayerParts @ [''[0:v][layer_0_final]'' @ centerOverlay @ ''[out]''] =
        [] @ ff @
        chain lbl (transformationSteps rt0 fullLayer 0 1920 1080 @ [(''null'', finalLabel rt0 0)]) @
        [''[0:v]'' @ finalLabel rt0 0 @ ''overlay='' @ calculateOverlayPosition rt0 fullLayer 1920 1080 @
         '':eof_action=pass'' @ ''[out]'']) \<and>
   transformationSteps rt0 pxLayer 0 1920 1080 = [] \<and>
   getLayerTransformationFilters rt0 pxLayer 0 ''[1:v]'' 1920 1080 = [] \<and>
   overlayStep rt0 [(''background'', 0), (''layer_0'', 1)] 1920 1080 1 (pxLayer, 0) 0 ([], ''[0:v]'') =
     Inr ([''[0:v][1:v]'' @ centerOverlay @ ''[out]''], ''[0:v]'')"
proof -
  let ?m = "[(''background'', 0::nat), (''layer_0'', 1)]"
  note full = layer_transformation_order[where rt = rt0 and layer = fullLayer and i = 0
      and cur = "''[1:v]''" and w = 1920 and h = 1080 and m = ?m and n = 1 and k = 0
      and parts = "[]" and ?c0.0 = "''[0:v]''"
      and parts' = "fullLayerParts @ [''[0:v][layer_0_final]'' @ centerOverlay @ ''[out]'']"
      and ?c1.0 = "''[0:v]''" and ff = "[]" and lbl = "''[1:v]''"]
  note px = layer_transformation_order[where rt = rt0 and layer = pxLayer and i = 0
      and cur = "''[1:v]''" and w = 1920 and h = 1080 and m = ?m and n = 1 and k = 0
      and parts = "[]" and ?c0.0 = "''[0:v]''"
      and parts' = "[''[0:v][1:v]'' @ centerOverlay @ ''[out]'']"
      and ?c1.0 = "''[0:v]''" and ff = "[]" and lbl = "''[1:v]''"]
  have a: "transformationSteps rt0 fullLayer 0 1920 1080 \<noteq> [] \<and>
   getLayerTransformationFilters rt0 fullLayer 0 ''[1:v]'' 1920 1080 =
     chain ''[1:v]'' (transformationSteps rt0 fullLayer 0 1920 1080 @ [(''null'', finalLabel rt0 0)]) \<and>
   (\<exists>ff lbl.
      fullLayerParts @ [''[0:v][layer_0_final]'' @ centerOverlay @ ''[out]''] =
        [] @ ff @
        chain lbl (transformationSteps rt0 fullLayer 0 1920 1080 @ [(''null'', finalLabel rt0 0)]) @
        [''[0:v]'' @ finalLabel rt0 0 @ ''overlay='' @ calculateOverlayPosition rt0 fullLayer 1920 1080 @
         '':eof_action=pass'' @ ''[out]''])"
    using full fullLayer_eval by (simp add: Let_def)
  have hf: "getFFmpegFilters rt0 (fg fullLayer) (''layer_'' @ idx_str rt0 0) ?m (alpha_enabled fullLayer) =
      Inr [] \<and>
    (if [] \<noteq> ([] :: string list)
     then getCurrentInputLabel (fg fullLayer) (''layer_'' @ idx_str rt0 0) (alpha_enabled fullLayer)
     else Inr (''['' @ lookup_str rt0 ?m (''layer_'' @ idx_str rt0 0) @ '':v]'')) = Inr ''[1:v]'' \<and>
    transformationSteps rt0 fullLayer 0 1920 1080 \<noteq> []"
    using pxLayer_eval fullLayer_eval by simp
  have b: "overlayStep rt0 ?m 1920 1080 1 (fullLayer, 0) 0 ([], ''[0:v]'') =
     Inr (fullLayerParts @ [''[0:v][layer_0_final]'' @ centerOverlay @ ''[out]''], ''[0:v]'')"
    using full[THEN conjunct2, THEN conjunct2, THEN conjunct2, THEN conjunct2, THEN conjunct1,
        THEN mp, OF hf] pxLayer_eval(6,7,8)
    by simp
  have hp: "getFFmpegFilters rt0 (fg pxLayer) (''layer_'' @ idx_str rt0 0) ?m (alpha_enabled pxLayer) =
      Inr [] \<and>
    (if [] \<noteq> ([] :: string list)
     then getCurrentInputLabel (fg pxLayer) (''layer_'' @ idx_str rt0 0) (alpha_enabled pxLayer)
     else Inr (''['' @ lookup_str rt0 ?m (''layer_'' @ idx_str rt0 0) @ '':v]'')) = Inr ''[1:v]'' \<and>
    transformationSteps rt0 pxLayer 0 1920 1080 = []"
    using pxLayer_eval by simp
  have c: "getLayerTransformationFilters rt0 pxLayer 0 ''[1:v]'' 1920 1080 = [] \<and>
    overlayStep rt0 ?m 1920 1080 1 (pxLayer, 0) 0 ([], ''[0:v]'') =
     Inr ([''[0:v][1:v]'' @ centerOverlay @ ''[out]''], ''[0:v]'')"
    using px[THEN conjunct2, THEN conjunct2, THEN conjunct2, THEN conjunct2, THEN conjunct2,
        THEN mp, OF hp] pxLayer_eval(4)
    by simp
  show ?thesis
    using a b c pxLayer_eval(3) by simp
qed

text \<open>
  The claim lists rotate (and scale) without a condition. A layer as \<^verbatim>\<open>add\<close> leaves it has
  rotation 0 and gets no rotate filter; a pixel-sized layer without dimensions gets neither
  a scale nor a rotate filter.
\<close>

theorem unconditional_rotate_counterexample:
  "rotate_l defaultLayer = 0 \<and>
   getLayerTransformationFilters rt0 defaultLayer 0 ''[1:v]'' 1920 1080 =
     [''[1:v]scale=1920:1080:force_original_aspect_ratio=decrease[layer_0_scale]'',
      ''[layer_0_scale]null[layer_0_final]''] \<and>
   getLayerTransformationFilters rt0 timedPxLayer 0 ''[1:v]'' 1920 1080 =
     [''[1:v]setpts=PTS-STARTPTS,setpts=PTS+5/TB[layer_0_timed]'',
      ''[layer_0_timed]null[layer_0_final]'']"
  by code_simp

subsection \<open>Aspect-ratio constraint\<close>

lemma step_scale_filter:
  assumes "scaleTarget rt layer w h = Some (tw, th)"
  shows "step_scale rt layer L w h (fs, c) =
     (fs @ [c @ ''scale='' @ tw @ '':'' @ th @
            (case getAspectRatioConstraint (fst (size_l layer)) of
               None \<Rightarrow> []
             | Some k \<Rightarrow> '':force_original_aspect_ratio='' @ k) @ ''['' @ L @ ''_scale]''],
      ''['' @ L @ ''_scale]'')"
  using assms by (simp add: step_scale_def Let_def split: option.splits)

lemma scaleSteps_Some:
  assumes "scaleTarget rt layer w h = Some (tw, th)"
  shows "scaleSteps rt layer L w h =
     [(''scale='' @ tw @ '':'' @ th @
       (case getAspectRatioConstraint (fst (size_l layer)) of
          None \<Rightarrow> []
        | Some k \<Rightarrow> '':force_original_aspect_ratio='' @ k), ''['' @ L @ ''_scale]'')]"
  using assms by (simp add: scaleSteps_def)

lemma scale_filter_member:
  assumes "scaleTarget rt layer w h = Some (tw, th)"
  shows "snd (step_crop rt layer (''layer_'' @ idx_str rt i)
                (step_timed rt layer (''layer_'' @ idx_str rt i) ([], cur))) @
         ''scale='' @ tw @ '':'' @ th @
         (case getAspectRatioConstraint (fst (size_l layer)) of
            None \<Rightarrow> []
          | Some k \<Rightarrow> '':force_original_aspect_ratio='' @ k) @
         ''[layer_'' @ idx_str rt i @ ''_scale]''
         \<in> set (getLayerTransformationFilters rt layer i cur w h)"
proof -
  let ?L = "''layer_'' @ idx_str rt i"
  let ?T = "timedSteps rt layer ?L @ cropSteps rt layer ?L"
  let ?body = "''scale='' @ tw @ '':'' @ th @
         (case getAspectRatioConstraint (fst (size_l layer)) of
            None \<Rightarrow> []
          | Some k \<Rightarrow> '':force_original_aspect_ratio='' @ k)"
  let ?R = "rotateSteps rt layer ?L @ opacitySteps rt layer ?L"
  have c0: "snd (step_crop rt layer ?L (step_timed rt layer ?L ([], cur))) = lab cur ?T"
    by (simp add: step_timed_chain step_crop_chain lab_append)
  have st: "transformationSteps rt layer i w h = ?T @ (?body, ''['' @ ?L @ ''_scale]'') # ?R"
    by (simp add: transformationSteps_def Let_def scaleSteps_Some[OF assms])
  have "getLayerTransformationFilters rt layer i cur w h =
      chain cur (?T @ (?body, ''['' @ ?L @ ''_scale]'') # ?R @ [(''null'', finalLabel rt i)])"
    by (simp add: transformation_chain Let_def st)
  also have "\<dots> = chain cur ?T @ (lab cur ?T @ ?body @ ''['' @ ?L @ ''_scale]'') #
      chain (''['' @ ?L @ ''_scale]'') (?R @ [(''null'', finalLabel rt i)])"
    by (simp only: chain_append chain.simps)
  finally show ?thesis
    unfolding c0 by simp
qed

text \<open>
  C3 (as the code has it). The aspect-ratio constraint is a function of the size mode
  alone: PX, CANVAS_PERCENT, CONTAIN, FIT_WIDTH and FIT_HEIGHT give "decrease", COVER gives
  "increase", SCALE gives none. Whenever the scale step runs, its filter is the target
  width and height followed by \<^verbatim>\<open>:force_original_aspect_ratio=\<close> and the constraint of the
  mode, or by nothing when the mode has none, and this filter is among the transformation
  filters of the layer. In particular the scale filter of a FIT_WIDTH layer is the canvas
  width and \<open>-1\<close> with the flag \<^verbatim>\<open>force_original_aspect_ratio=decrease\<close>, the one of a
  FIT_HEIGHT layer is \<open>-1\<close> and the canvas height with the same flag, and the one of a SCALE
  layer carries no flag.
\<close>

theorem aspect_constraint_table:
  "getAspectRatioConstraint PX = Some ''decrease'' \<and>
   getAspectRatioConstraint CANVAS_PERCENT = Some ''decrease'' \<and>
   getAspectRatioConstraint CONTAIN = Some ''decrease'' \<and>
   getAspectRatioConstraint FIT_WIDTH = Some ''decrease'' \<and>
   getAspectRatioConstraint FIT_HEIGHT = Some ''decrease'' \<and>
   getAspectRatioConstraint COVER = Some ''increase'' \<and>
   getAspectRatioConstraint SCALE = None \<and>
   (scaleTarget rt layer w h = Some (tw, th) \<longrightarrow>
      step_scale rt layer L w h (fs, c) =
        (fs @ [c @ ''scale='' @ tw @ '':'' @ th @
               (case getAspectRatioConstraint (fst (size_l layer)) of
                  None \<Rightarrow> []
                | Some k \<Rightarrow> '':force_original_aspect_ratio='' @ k) @ ''['' @ L @ ''_scale]''],
         ''['' @ L @ ''_scale]'') \<and>
      snd (step_crop rt layer (''layer_'' @ idx_str rt i)
             (step_timed rt layer (''layer_'' @ idx_str rt i) ([], cur))) @
      ''scale='' @ tw @ '':'' @ th @
      (case getAspectRatioConstraint (fst (size_l layer)) of
         None \<Rightarrow> []
       | Some k \<Rightarrow> '':force_original_aspect_ratio='' @ k) @
      ''[layer_'' @ idx_str rt i @ ''_scale]''
      \<in> set (getLayerTransformationFilters rt layer i cur w h)) \<and>
   (fst (size_l layer) = FIT_WIDTH \<longrightarrow>
      step_scale rt layer L w h (fs, c) =
        (fs @ [c @ ''scale='' @ num_str rt w @ '':'' @ num_str rt (- 1) @
               '':force_original_aspect_ratio=decrease'' @ ''['' @ L @ ''_scale]''],
         ''['' @ L @ ''_scale]'') \<and>
      snd (step_crop rt layer (''layer_'' @ idx_str rt i)
             (step_timed rt layer (''layer_'' @ idx_str rt i) ([], cur))) @
      ''scale='' @ num_str rt w @ '':'' @ num_str rt (- 1) @
      '':force_original_aspect_ratio=decrease'' @ ''[layer_'' @ idx_str rt i @ ''_scale]''
      \<in> set (getLayerTransformationFilters rt layer i cur w h)) \<and>
   (fst (size_l layer) = FIT_HEIGHT \<longrightarrow>
      step_scale rt layer L w h (fs, c) =
        (fs @ [c @ ''scale='' @ num_str rt (- 1) @ '':'' @ num_str rt h @
               '':force_original_aspect_ratio=decrease'' @ ''['' @ L @ ''_scale]''],
         ''['' @ L @ ''_scale]'') \<and>
      snd (step_crop rt layer (''layer_'' @ idx_str rt i)
             (step_timed rt layer (''layer_'' @ idx_str rt i) ([], cur))) @
      ''scale='' @ num_str rt (- 1) @ '':'' @ num_str rt h @
      '':force_original_aspect_ratio=decrease'' @ ''[layer_'' @ idx_str rt i @ ''_scale]''
      \<in> set (getLayerTransformationFilters rt layer i cur w h)) \<and>
   (fst (size_l layer) = SCALE \<and> scaleTarget rt layer w h = Some (tw, th) \<longrightarrow>
      step_scale rt layer L w h (fs, c) =
        (fs @ [c @ ''scale='' @ tw @ '':'' @ th @ ''['' @ L @ ''_scale]''], ''['' @ L @ ''_scale]''))"
proof -
  have tab: "getAspectRatioConstraint PX = Some ''decrease''"
    "getAspectRatioConstraint CANVAS_PERCENT = Some ''decrease''"
    "getAspectRatioConstraint CONTAIN = Some ''decrease''"
    "getAspectRatioConstraint FIT_WIDTH = Some ''decrease''"
    "getAspectRatioConstraint FIT_HEIGHT = Some ''decrease''"
    "getAspectRatioConstraint COVER = Some ''increase''"
    "getAspectRatioConstraint SCALE = None"
    by (simp_all add: getAspectRatioConstraint_def)
  have fw: "scaleTarget rt layer w h = Some (num_str rt w, num_str rt (- 1))"
    if "fst (size_l layer) = FIT_WIDTH"
    using that by (cases "size_l layer") (simp add: scaleTarget_def)
  have fh: "scaleTarget rt layer w h = Some (num_str rt (- 1), num_str rt h)"
    if "fst (size_l layer) = FIT_HEIGHT"
    using that by (cases "size_l layer") (simp add: scaleTarget_def)
  have 1: "step_scale rt layer L w h (fs, c) =
        (fs @ [c @ ''scale='' @ num_str rt w @ '':'' @ num_str rt (- 1) @
               '':force_original_aspect_ratio=decrease'' @ ''['' @ L @ ''_scale]''],
         ''['' @ L @ ''_scale]'') \<and>
      snd (step_crop rt layer (''layer_'' @ idx_str rt i)
             (step_timed rt layer (''layer_'' @ idx_str rt i) ([], cur))) @
      ''scale='' @ num_str rt w @ '':'' @ num_str rt (- 1) @
      '':force_original_aspect_ratio=decrease'' @ ''[layer_'' @ idx_str rt i @ ''_scale]''
      \<in> set (getLayerTransformationFilters rt layer i cur w h)"
    if m: "fst (size_l layer) = FIT_WIDTH"
    using step_scale_filter[OF fw[OF m], of L fs c] scale_filter_member[OF fw[OF m], of i cur]
    by (simp add: m tab)
  have 2: "step_scale rt layer L w h (fs, c) =
        (fs @ [c @ ''scale='' @ num_str rt (- 1) @ '':'' @ num_str rt h @
               '':force_original_aspect_ratio=decrease'' @ ''['' @ L @ ''_scale]''],
         ''['' @ L @ ''_scale]'') \<and>
      snd (step_crop rt layer (''layer_'' @ idx_str rt i)
             (step_timed rt layer (''layer_'' @ idx_str rt i) ([], cur))) @
      ''scale='' @ num_str rt (- 1) @ '':'' @ num_str rt h @
      '':force_original_aspect_ratio=decrease'' @ ''[layer_'' @ idx_str rt i @ ''_scale]''
      \<in> set (getLayerTransformationFilters rt layer i cur w h)"
    if m: "fst (size_l layer) = FIT_HEIGHT"
    using step_scale_filter[OF fh[OF m], of L fs c] scale_filter_member[OF fh[OF m], of i cur]
    by (simp add: m tab)
  have 3: "step_scale rt layer L w h (fs, c) =
        (fs @ [c @ ''scale='' @ tw @ '':'' @ th @ ''['' @ L @ ''_scale]''], ''['' @ L @ ''_scale]'')"
    if "fst (size_l layer) = SCALE" "scaleTarget rt layer w h = Some (tw, th)"
    using step_scale_filter[OF that(2), of L fs c] by (simp add: that(1) tab)
  show ?thesis
    using tab 1 2 3 step_scale_filter[of rt layer w h tw th L fs c]
      scale_filter_member[of rt layer w h tw th i cur]
    by (intro conjI impI) simp_all
qed

text \<open>
  The theorem at three layers built through the handle, on a 1920 by 1080 canvas: sized with
  FIT_WIDTH, with FIT_HEIGHT, and with SCALE and factor 2.
\<close>

theorem aspect_constraint_table_witness:
  "scaleTarget rt0 fitWidthLayer 1920 1080 = Some (''1920'', ''-1'') \<and>
   fst (size_l fitWidthLayer) = FIT_WIDTH \<and>
   step_scale rt0 fitWidthLayer ''layer_0'' 1920 1080 ([], ''[1:v]'') =
     ([''[1:v]scale=1920:-1:force_original_aspect_ratio=decrease[layer_0_scale]''],
      ''[layer_0_scale]'') \<and>
   ''[1:v]scale=1920:-1:force_original_aspect_ratio=decrease[layer_0_scale]''
     \<in> set (getLayerTransformationFilters rt0 fitWidthLayer 0 ''[1:v]'' 1920 1080) \<and>
   fst (size_l fitHeightLayer) = FIT_HEIGHT \<and>
   step_scale rt0 fitHeightLayer ''layer_0'' 1920 1080 ([], ''[1:v]'') =
     ([''[1:v]scale=-1:1080:force_original_aspect_ratio=decrease[layer_0_scale]''],
      ''[layer_0_scale]'') \<and>
   ''[1:v]scale=-1:1080:force_original_aspect_ratio=decrease[layer_0_scale]''
     \<in> set (getLayerTransformationFilters rt0 fitHeightLayer 0 ''[1:v]'' 1920 1080) \<and>
   fst (size_l scaleLayer) = SCALE \<and>
   scaleTarget rt0 scaleLayer 1920 1080 = Some (''iw*2'', ''ih*2'') \<and>
   step_scale rt0 scaleLayer ''layer_0'' 1920 1080 ([], ''[1:v]'') =
     ([''[1:v]scale=iw*2:ih*2[layer_0_scale]''], ''[layer_0_scale]'')"
proof -
  have n: "num_str rt0 1920 = ''1920''" "num_str rt0 1080 = ''1080''" "num_str rt0 (- 1) = ''-1''"
    "num_str rt0 2 = ''2''" "idx_str rt0 0 = ''0''"
    by (simp_all add: rt0_def idx_str_def int_num_str_simps)
  have s: "size_l fitWidthLayer = (FIT_WIDTH, None, None, None, None)"
    "size_l fitHeightLayer = (FIT_HEIGHT, None, None, None, None)"
    "size_l scaleLayer = (SCALE, None, None, None, Some 2)"
    by (simp_all add: fitWidthLayer_def fitHeightLayer_def scaleLayer_def add_def
        new_Composition_def h_size_def with_layer_def Let_def)
  have o: "comp_start fitWidthLayer = None" "crop fitWidthLayer = None"
    "comp_start fitHeightLayer = None" "crop fitHeightLayer = None"
    by (simp_all add: fitWidthLayer_def fitHeightLayer_def add_def
        new_Composition_def h_size_def with_layer_def Let_def)
  have c: "snd (step_crop rt0 fitWidthLayer ''layer_0'' (step_timed rt0 fitWidthLayer ''layer_0'' ([], ''[1:v]''))) = ''[1:v]''"
    "snd (step_crop rt0 fitHeightLayer ''layer_0'' (step_timed rt0 fitHeightLayer ''layer_0'' ([], ''[1:v]''))) = ''[1:v]''"
    by (simp_all add: step_crop_def step_timed_def o)
  have t: "scaleTarget rt0 fitWidthLayer 1920 1080 = Some (''1920'', ''-1'')"
    "scaleTarget rt0 scaleLayer 1920 1080 = Some (''iw*2'', ''ih*2'')"
    by (simp_all add: scaleTarget_def s n)
  have a: "step_scale rt0 fitWidthLayer ''layer_0'' 1920 1080 ([], ''[1:v]'') =
     ([''[1:v]scale=1920:-1:force_original_aspect_ratio=decrease[layer_0_scale]''],
      ''[layer_0_scale]'') \<and>
   ''[1:v]scale=1920:-1:force_original_aspect_ratio=decrease[layer_0_scale]''
     \<in> set (getLayerTransformationFilters rt0 fitWidthLayer 0 ''[1:v]'' 1920 1080)"
    using aspect_constraint_table[where rt = rt0 and layer = fitWidthLayer and w = 1920
        and h = 1080 and tw = "''1920''" and th = "''-1''" and L = "''layer_0''" and fs = "[]"
        and c = "''[1:v]''" and i = 0 and cur = "''[1:v]''"] t s n c
    by simp
  have b: "step_scale rt0 fitHeightLayer ''layer_0'' 1920 1080 ([], ''[1:v]'') =
     ([''[1:v]scale=-1:1080:force_original_aspect_ratio=decrease[layer_0_scale]''],
      ''[layer_0_scale]'') \<and>
   ''[1:v]scale=-1:1080:force_original_aspect_ratio=decrease[layer_0_scale]''
     \<in> set (getLayerTransformationFilters rt0 fitHeightLayer 0 ''[1:v]'' 1920 1080)"
    using aspect_constraint_table[where rt = rt0 and layer = fitHeightLayer and w = 1920
        and h = 1080 and tw = "''-1''" and th = "''1080''" and L = "''layer_0''" and fs = "[]"
        and c = "''[1:v]''" and i = 0 and cur = "''[1:v]''"] s n c
    by simp
  have d: "step_scale rt0 scaleLayer ''layer_0'' 1920 1080 ([], ''[1:v]'') =
     ([''[1:v]scale=iw*2:ih*2[layer_0_scale]''], ''[layer_0_scale]'')"
    using aspect_constraint_table[where rt = rt0 and layer = scaleLayer and w = 1920
        and h = 1080 and tw = "''iw*2''" and th = "''ih*2''" and L = "''layer_0''" and fs = "[]"
        and c = "''[1:v]''" and i = 0 and cur = "''[1:v]''"] t s
    by simp
  show ?thesis
    using a b d t s by simp
qed

text \<open>
  The claim that FIT_WIDTH and FIT_HEIGHT emit no constraint flag fails: a layer sized with
  FIT_WIDTH on a 1920 by 1080 canvas gets the scale filter with
  \<^verbatim>\<open>force_original_aspect_ratio=decrease\<close>, and so does a layer sized with FIT_HEIGHT.
\<close>

theorem fit_width_constraint_counterexample:
  "getAspectRatioConstraint FIT_WIDTH = Some ''decrease'' \<and>
   getLayerTransformationFilters rt0 fitWidthLayer 0 ''[1:v]'' 1920 1080 =
     [''[1:v]scale=1920:-1:force_original_aspect_ratio=decrease[layer_0_scale]'',
      ''[layer_0_scale]null[layer_0_final]''] \<and>
   getAspectRatioConstraint FIT_HEIGHT = Some ''decrease'' \<and>
   getLayerTransformationFilters rt0 fitHeightLayer 0 ''[1:v]'' 1920 1080 =
     [''[1:v]scale=-1:1080:force_original_aspect_ratio=decrease[layer_0_scale]'',
      ''[layer_0_scale]null[layer_0_final]'']"
  by (simp add: getAspectRatioConstraint_def getLayerTransformationFilters_def fitWidthLayer_def
      fitHeightLayer_def
      add_def new_Composition_def h_size_def with_layer_def Let_def step_timed_def step_crop_def
      step_scale_def step_rotate_def step_opacity_def step_final_def scaleTarget_def idx_str_def
      rt0_def int_num_str_simps endsWith_def str_or_def suffix_to_prefix)

subsection \<open>Adding layers and compositing order\<close>















subsection \<open>Mixing several audio sources\<close>

text \<open>
  C4, at a failing input. The composition has a video background with audio, a first layer
  with audio and no start offset, and a second layer with audio disabled that starts at
  second 5. Two audio inputs are collected: the first layer's and the background's. In the
  mixing branch the background's entry has no layer index, so the loop looks the layer up
  at the entry's own position 1 and delays the background by that layer's start: the
  background audio \<^verbatim>\<open>[0:a]\<close> gets \<^verbatim>\<open>adelay=5000|5000\<close>.
\<close>

theorem background_audio_delayed_in_mix:
  "map_sum id snd (argvBeforeDuration rt1 env0 ctx0 compBgAudio) =
     Inr [\<lparr>input = ''1:a'', volume = 1, audio_type = Foreground_audio, layerIndex = Some 0\<rparr>,
          \<lparr>input = ''0:a'', volume = 1, audio_type = Background_audio, layerIndex = None\<rparr>] \<and>
   audioParts rt1 compBgAudio
     [\<lparr>input = ''1:a'', volume = 1, audio_type = Foreground_audio, layerIndex = Some 0\<rparr>,
      \<lparr>input = ''0:a'', volume = 1, audio_type = Background_audio, layerIndex = None\<rparr>] =
     ([''[0:a]adelay=5000|5000[audio_delayed_1]'',
       ''[1:a][audio_delayed_1]amix=inputs=2:duration=longest[audio_out]''],
      [''-map'', ''[audio_out]''])"
proof (rule conjI)
  show "map_sum id snd (argvBeforeDuration rt1 env0 ctx0 compBgAudio) =
     Inr [\<lparr>input = ''1:a'', volume = 1, audio_type = Foreground_audio, layerIndex = Some 0\<rparr>,
          \<lparr>input = ''0:a'', volume = 1, audio_type = Background_audio, layerIndex = None\<rparr>]"
    by code_simp
next
  show "audioParts rt1 compBgAudio
     [\<lparr>input = ''1:a'', volume = 1, audio_type = Foreground_audio, layerIndex = Some 0\<rparr>,
      \<lparr>input = ''0:a'', volume = 1, audio_type = Background_audio, layerIndex = None\<rparr>] =
     ([''[0:a]adelay=5000|5000[audio_delayed_1]'',
       ''[1:a][audio_delayed_1]amix=inputs=2:duration=longest[audio_out]''],
      [''-map'', ''[audio_out]''])"
    by (simp add: audioParts_def multiAudio_def multiAudioStep_def compStartAt_def compBgAudio_def
        add_def Let_def h_start_def h_audio_def with_layer_def new_Composition_def num_or_def
        delay_ms_def floor_num_def idx_str_def rt1_def int_num_str_simps)
qed

subsection \<open>Normalisation of an RGB and mask pair\<close>

lemma matte_dryRun: "dryRun rt1 env0 ctx0 compMatte = Inr matteCommand"
  by code_simp

lemma matte_geq: "includes_str matteCommand ''geq=''"
proof -
  have "matteCommand =
     (''ffmpeg -y -f lavfi -i color=c=#FF0000:size=1920x1080:rate=30 '' @
     ''-i video_preprocessed.mp4 -i video_matte.mp4 -filter_complex '' @
     ''[1:v]format=rgba[layer_0_rgba];[2:v]format=gray[layer_0_mask_gray];'' @
     ''[layer_0_mask_gray]'') @ ''geq='' @
     ([CHR 0x27] @ ''if(gte(lum(X,Y),128),255,0)'' @ [CHR 0x27] @
     ''[layer_0_binary_mask]'' @ '';'' @
     ''[layer_0_rgba][layer_0_binary_mask]alphamerge[layer_0_merged];'' @
     ''[layer_0_merged]scale=1920:1080:force_original_aspect_ratio=decrease[layer_0_scale];'' @
     ''[layer_0_scale]null[layer_0_final];[0:v][layer_0_final]'' @ centerOverlay @ ''[out] '' @
     ''-map [out] -map 1:a? -t 5 -c:v libx264 -crf 18 -preset medium -pix_fmt yuv420p OUT.mp4'')"
    by (simp add: matteCommand_def thresholdFilter_def)
  then show ?thesis
    using includes_strI by metis
qed

text \<open>
  C2, at a failing input. \<^verbatim>\<open>fromVideoAndMask\<close> takes the video, the mask, an optional
  audio path and a context; a Foreground has no soft (matte) flag, and a fifth argument
  \<^verbatim>\<open>true\<close> of a call is dropped. With alpha enabled the filters of a pair always hold the
  threshold \<^verbatim>\<open>geq='if(gte(lum(X,Y),128),255,0)'\<close> before the alpha merge, and so does the
  command of the dry run.
\<close>

theorem bundle_threshold_has_no_soft_mode:
  "videoFilterParts rt1 [(''background'', 0), (''layer_0_rgb'', 1), (''layer_0_mask'', 2)] compMatte
     1920 1080 =
     Inr [''[1:v]format=rgba[layer_0_rgba]'',
          ''[2:v]format=gray[layer_0_mask_gray]'',
          thresholdFilter,
          ''[layer_0_rgba][layer_0_binary_mask]alphamerge[layer_0_merged]'',
          ''[layer_0_merged]scale=1920:1080:force_original_aspect_ratio=decrease[layer_0_scale]'',
          ''[layer_0_scale]null[layer_0_final]'',
          ''[0:v][layer_0_final]'' @ centerOverlay @ ''[out]''] \<and>
   dryRun rt1 env0 ctx0 compMatte = Inr matteCommand \<and> includes_str matteCommand ''geq=''"
proof (intro conjI)
  show "videoFilterParts rt1 [(''background'', 0), (''layer_0_rgb'', 1), (''layer_0_mask'', 2)] compMatte
     1920 1080 =
     Inr [''[1:v]format=rgba[layer_0_rgba]'',
          ''[2:v]format=gray[layer_0_mask_gray]'',
          thresholdFilter,
          ''[layer_0_rgba][layer_0_binary_mask]alphamerge[layer_0_merged]'',
          ''[layer_0_merged]scale=1920:1080:force_original_aspect_ratio=decrease[layer_0_scale]'',
          ''[layer_0_scale]null[layer_0_final]'',
          ''[0:v][layer_0_final]'' @ centerOverlay @ ''[out]'']"
    by code_simp
qed (rule matte_dryRun matte_geq)+

end
